theory Spec2Isabelle
  imports Complex_Main "HOL-Library.Log_Nat"
begin

section \<open>JavaScript values\<close>

text \<open>
  The values that flow through the client (response bodies, error bodies, the normalised
  results) are JavaScript values. Numbers are modelled as rationals: every finite double
  is a rational (there is no \<open>NaN\<close> and no infinity); where the source multiplies or
  subtracts numbers that need not be integers, in \<open>computeBackoff\<close>, the result is
  rounded as a double is. Strings are lists of 8-bit code units, the Latin-1 range of
  JavaScript's UTF-16 code units. An object is the list of its own properties in
  insertion order, a key occurring once (the reordering of integer-like keys is not
  modelled; no property below depends on the order).
\<close>

datatype jsval =
    JUndefined
  | JNull
  | JBool bool
  | JNum rat
  | JStr string
  | JArr "jsval list"
  | JObj "(string \<times> jsval) list"

text \<open>Truthiness, as \<open>!v\<close>, \<open>v && ...\<close>, \<open>v || ...\<close> and \<open>if (v)\<close> read it.\<close>

fun truthy :: "jsval \<Rightarrow> bool" where
  "truthy JUndefined = False"
| "truthy JNull = False"
| "truthy (JBool b) = b"
| "truthy (JNum n) = (n \<noteq> 0)"
| "truthy (JStr s) = (s \<noteq> [])"
| "truthy (JArr xs) = True"
| "truthy (JObj kvs) = True"

text \<open>\<open>typeof v === "object"\<close>: true of \<open>null\<close>, arrays and objects.\<close>

fun is_object :: "jsval \<Rightarrow> bool" where
  "is_object JNull = True"
| "is_object (JArr xs) = True"
| "is_object (JObj kvs) = True"
| "is_object v = False"

text \<open>The decimal numeral of an array index, as a property key.\<close>

definition digit :: "nat \<Rightarrow> char" where
  "digit d = char_of (48 + d)"

fun show_nat :: "nat \<Rightarrow> string" where
  "show_nat n = (if n < 10 then [digit n] else show_nat (n div 10) @ [digit (n mod 10)])"

declare show_nat.simps [simp del]

text \<open>
  The own enumerable properties of a value, as object spread \<open>{...v}\<close> and
  \<open>Object.entries(v)\<close> list them: the entries of an object, the indexed elements of an
  array, the indexed characters of a string, nothing for any other value.
\<close>

fun spread :: "jsval \<Rightarrow> (string \<times> jsval) list" where
  "spread (JObj kvs) = kvs"
| "spread (JArr xs) = zip (map show_nat [0..<length xs]) xs"
| "spread (JStr s) = zip (map show_nat [0..<length s]) (map (\<lambda>c. JStr [c]) s)"
| "spread v = []"

fun lookup :: "string \<Rightarrow> (string \<times> jsval) list \<Rightarrow> jsval option" where
  "lookup k [] = None"
| "lookup k ((k', v) # kvs) = (if k' = k then Some v else lookup k kvs)"

text \<open>
  \<open>k in v\<close>: whether \<open>v\<close> has the property \<open>k\<close> when \<open>v\<close> is an object or an
  array, and a \<open>TypeError\<close> (\<open>None\<close>) for every other value, \<open>null\<close> included. The
  names asked for are \<open>status\<close> and \<open>data\<close>, which are not properties of the
  prototypes.
\<close>

fun js_in :: "string \<Rightarrow> jsval \<Rightarrow> bool option" where
  "js_in k (JObj kvs) = Some (lookup k kvs \<noteq> None)"
| "js_in k (JArr xs) = Some (k = ''length'' \<or> lookup k (spread (JArr xs)) \<noteq> None)"
| "js_in k v = None"

text \<open>
  \<open>v?.k\<close> for the names the source reads (\<open>status\<close>, \<open>data\<close>, \<open>message\<close>,
  \<open>error\<close>): a missing property is \<open>undefined\<close>, and no primitive value has a
  property of one of these names. It is also \<open>v.k\<close> wherever the source writes a
  plain dot, which it does only on values that a test before has shown to be objects.
\<close>

fun get_prop :: "string \<Rightarrow> jsval \<Rightarrow> jsval" where
  "get_prop k (JObj kvs) = (case lookup k kvs of None \<Rightarrow> JUndefined | Some v \<Rightarrow> v)"
| "get_prop k (JArr xs) =
     (if k = ''length'' then JNum (of_nat (length xs))
      else case lookup k (spread (JArr xs)) of None \<Rightarrow> JUndefined | Some v \<Rightarrow> v)"
| "get_prop k v = JUndefined"

text \<open>
  Writing a property (\<open>o.k = v\<close>, and a key after a spread in an object literal): an
  existing key keeps its place and takes the new value, a new key goes last.
\<close>

fun set_prop :: "string \<Rightarrow> jsval \<Rightarrow> (string \<times> jsval) list \<Rightarrow> (string \<times> jsval) list" where
  "set_prop k v [] = [(k, v)]"
| "set_prop k v ((k', v') # kvs) =
     (if k' = k then (k, v) # kvs else (k', v') # set_prop k v kvs)"

text \<open>\<open>a || b\<close>: the first operand when it is truthy, else the second.\<close>

definition js_or :: "jsval \<Rightarrow> jsval \<Rightarrow> jsval" where
  "js_or a b = (if truthy a then a else b)"

section \<open>Transport outcomes and thrown values\<close>

text \<open>
  A thrown value, seen through the three properties the client reads of it
  (\<open>response\<close>, \<open>message\<close> and \<open>code\<close>, each through \<open>?.\<close>): a thrown value
  that is no error object at all is the record with no field set. Of a response the
  client reads \<open>data\<close>, \<open>status\<close> and \<open>headers\<close>.
\<close>

record axios_response =
  data :: jsval
  status :: "int option"
  headers :: "(string \<times> string) list"

record axios_error =
  response :: "axios_response option"
  message :: "string option"
  code :: "string option"

text \<open>\<open>new Error(msg)\<close>, and the \<open>TypeError\<close> that the operator \<open>in\<close> raises.\<close>

definition js_Error :: "string \<Rightarrow> axios_error" where
  "js_Error msg = \<lparr>response = None, message = Some msg, code = None\<rparr>"

definition TypeError :: axios_error where
  "TypeError = js_Error ''Cannot use the in operator on a value that is not an object''"

section \<open>Normalizers\<close>

text \<open>
  The test both normalizers make of a body, evaluated left to right as \<open>&&\<close> does:
  \<open>v && typeof v === "object" && "status" in v && "data" in v\<close>, and then
  \<open>v.status === b\<close>. \<open>None\<close> is the \<open>TypeError\<close> of an \<open>in\<close> that is reached
  with a value that is not an object.
\<close>

definition has_shape :: "bool \<Rightarrow> jsval \<Rightarrow> bool option" where
  "has_shape b v =
     (if \<not> truthy v then Some False
      else if \<not> is_object v then Some False
      else (case js_in ''status'' v of
              None \<Rightarrow> None
            | Some has_status \<Rightarrow>
                (if \<not> has_status then Some False
                 else (case js_in ''data'' v of
                         None \<Rightarrow> None
                       | Some has_data \<Rightarrow>
                           (if \<not> has_data then Some False
                            else Some (get_prop ''status'' v = JBool b))))))"

text \<open>
  The normalizers return \<open>Inr\<close> the value they return and \<open>Inl\<close> the value they
  throw.
\<close>

definition normalizeSuccess :: "axios_response \<Rightarrow> axios_error + jsval" where
  "normalizeSuccess res =
     (let payload = data res in
      case has_shape True payload of
        None \<Rightarrow> Inl TypeError
      | Some passes \<Rightarrow>
          Inr (if passes then payload
               else JObj [(''status'', JBool True), (''data'', payload)]))"

text \<open>\<open>r?.data\<close> and \<open>r?.status\<close> of the error's response.\<close>

definition response_data :: "axios_error \<Rightarrow> jsval" where
  "response_data err = (case response err of None \<Rightarrow> JUndefined | Some r \<Rightarrow> data r)"

definition response_status :: "axios_error \<Rightarrow> int option" where
  "response_status err = (case response err of None \<Rightarrow> None | Some r \<Rightarrow> status r)"

definition opt_str :: "string option \<Rightarrow> jsval" where
  "opt_str s = (case s of None \<Rightarrow> JUndefined | Some x \<Rightarrow> JStr x)"

definition opt_num :: "int option \<Rightarrow> jsval" where
  "opt_num n = (case n of None \<Rightarrow> JUndefined | Some x \<Rightarrow> JNum (of_int x))"

text \<open>
  The two constants of \<open>normalizeError\<close>: \<open>message\<close>, the \<open>||\<close> chain, and
  \<open>data\<close>, the object literal followed by the two conditional assignments of
  \<open>statusCode\<close> and \<open>code\<close>.
\<close>

definition error_message :: "axios_error \<Rightarrow> jsval" where
  "error_message err =
     js_or (get_prop ''message'' (response_data err))
       (js_or (get_prop ''error'' (response_data err))
          (js_or (opt_str (message err)) (JStr ''Request failed'')))"

definition error_data :: "axios_error \<Rightarrow> (string \<times> jsval) list" where
  "error_data err =
     (let responseData = response_data err;
          data0 = (if truthy responseData \<and> is_object responseData
                   then set_prop ''message'' (error_message err) (spread responseData)
                   else [(''message'', error_message err)]);
          data1 = (if truthy (opt_num (response_status err))
                   then set_prop ''statusCode'' (opt_num (response_status err)) data0
                   else data0)
      in if truthy (opt_str (code err))
         then set_prop ''code'' (opt_str (code err)) data1
         else data1)"

definition normalizeError :: "axios_error \<Rightarrow> axios_error + jsval" where
  "normalizeError err =
     (let rdata = response_data err in
      case has_shape False rdata of
        None \<Rightarrow> Inl TypeError
      | Some passes \<Rightarrow>
          Inr (if passes then rdata
               else JObj [(''status'', JBool False), (''data'', JObj (error_data err))]))"

section \<open>Backoff policy and retriability\<close>

text \<open>
  \<open>RetryOptions\<close>. The number of retries is an integer, of either sign (the source
  takes \<open>Math.max(0, retries)\<close>); the delays are numbers of milliseconds.
\<close>

record retry_options =
  retries :: int
  baseDelayMs :: rat
  maxDelayMs :: rat
  jitter :: bool

definition DEFAULT_RETRY :: retry_options where
  "DEFAULT_RETRY = \<lparr>retries = 1, baseDelayMs = 300, maxDelayMs = 2000, jitter = True\<rparr>"

text \<open>\<open>2 ** n\<close> for an integer \<open>n\<close>, a fraction when \<open>n\<close> is negative.\<close>

definition pow2 :: "int \<Rightarrow> rat" where
  "pow2 n = (if 0 \<le> n then 2 ^ nat n else 1 / 2 ^ nat (- n))"

text \<open>
  The arithmetic of doubles (IEEE 754 binary64): the exact result of an operation is
  rounded to the nearest number with a significand of 53 bits, a tie going to the even
  significand. \<open>ilog2 x\<close> is the exponent of a positive \<open>x\<close>, the integer \<open>e\<close>
  with \<open>2^e \<le> x < 2^(e + 1)\<close>, and the doubles of that binade are the multiples of
  \<open>2^(e - 52)\<close>. The exponent is not bounded: there is no overflow to infinity and
  there are no subnormal numbers (delays in milliseconds and draws of \<open>Math.random\<close>
  stay far inside the range of a double). A number literal of the source is the double
  nearest to it: \<open>0.3\<close> is \<open>fl (3 / 10)\<close>.
\<close>

definition ilog2 :: "rat \<Rightarrow> int" where
  "ilog2 x =
     (case quotient_of x of
        (p, q) \<Rightarrow>
          (let d = bitlen p - bitlen q
           in if pow2 d \<le> x then d else d - 1))"

definition round_even :: "rat \<Rightarrow> int" where
  "round_even z =
     (let n = \<lfloor>z\<rfloor>; f = z - of_int n
      in if f < 1 / 2 then n
         else if 1 / 2 < f then n + 1
         else if even n then n else n + 1)"

definition fl :: "rat \<Rightarrow> rat" where
  "fl x =
     (if x = 0 then 0
      else let ulp = pow2 (ilog2 \<bar>x\<bar> - 52)
           in sgn x * of_int (round_even (\<bar>x\<bar> / ulp)) * ulp)"

text \<open>A number that is a double: rounding leaves it as it is.\<close>

definition is_double :: "rat \<Rightarrow> bool" where
  "is_double x = (fl x = x)"

text \<open>
  \<open>computeBackoff\<close>; its third argument is the value \<open>Math.random()\<close> returns, read
  only when \<open>jitter\<close> is set. Each product and the difference are rounded;
  \<open>Math.min\<close> and \<open>Math.floor\<close> are exact.
\<close>

definition computeBackoff :: "int \<Rightarrow> retry_options \<Rightarrow> rat \<Rightarrow> rat" where
  "computeBackoff attempt p r =
     (let exp = min (maxDelayMs p) (fl (baseDelayMs p * pow2 (attempt - 1))) in
      if \<not> jitter p then exp
      else let rand = fl (fl (r * exp) * fl (3 / 10))
           in min (maxDelayMs p) (of_int \<lfloor>fl (exp - rand)\<rfloor>))"

text \<open>
  \<open>isRetriable\<close>: \<open>!status\<close> holds when the status is \<open>undefined\<close> and when it
  is \<open>0\<close>.
\<close>

definition isRetriable :: "axios_error \<Rightarrow> bool" where
  "isRetriable err =
     (case response_status err of
        None \<Rightarrow> True
      | Some s \<Rightarrow> if s = 0 then True else 500 \<le> s \<and> s < 600)"

section \<open>Execution wrapper\<close>

text \<open>
  The retry override of a call, \<open>Partial<RetryOptions>\<close>: a field that is \<open>None\<close> is
  a key the caller left out. \<open>merge_retry\<close> is
  \<open>{ ...DEFAULT_RETRY, ...(options.retry ?? {}) }\<close>.
\<close>

record partial_retry =
  p_retries :: "int option"
  p_baseDelayMs :: "rat option"
  p_maxDelayMs :: "rat option"
  p_jitter :: "bool option"

definition override :: "'a \<Rightarrow> 'a option \<Rightarrow> 'a" where
  "override d x = (case x of None \<Rightarrow> d | Some v \<Rightarrow> v)"

definition merge_retry :: "partial_retry option \<Rightarrow> retry_options" where
  "merge_retry o_retry =
     (case o_retry of
        None \<Rightarrow> DEFAULT_RETRY
      | Some p \<Rightarrow>
          \<lparr>retries = override (retries DEFAULT_RETRY) (p_retries p),
           baseDelayMs = override (baseDelayMs DEFAULT_RETRY) (p_baseDelayMs p),
           maxDelayMs = override (maxDelayMs DEFAULT_RETRY) (p_maxDelayMs p),
           jitter = override (jitter DEFAULT_RETRY) (p_jitter p)\<rparr>)"

text \<open>
  What a call leaves behind besides its result: the state of the transport, the number
  of times the exchange function was invoked, the waits awaited between attempts (in
  order) and the number of values drawn from \<open>Math.random\<close>.
\<close>

record 's trace =
  world :: 's
  calls :: nat
  waits :: "rat list"
  draws :: nat

definition start :: "'s \<Rightarrow> 's trace" where
  "start s = \<lparr>world = s, calls = 0, waits = [], draws = 0\<rparr>"

text \<open>
  The exchange function \<open>fn\<close> takes the state of the world and gives the outcome of
  one attempt (\<open>Inr\<close> the response the promise resolves with, \<open>Inl\<close> the value
  thrown by the call or the value the promise rejects with) and the next state. Every
  attempt is taken to settle.
  \<open>rnd k\<close> is the \<open>k\<close>-th value that \<open>Math.random\<close> returns during the call.
\<close>

type_synonym 's exchange = "'s \<Rightarrow> (axios_error + axios_response) \<times> 's"

definition invoke :: "'s exchange \<Rightarrow> 's trace \<Rightarrow> (axios_error + axios_response) \<times> 's trace" where
  "invoke fn t =
     (case fn (world t) of
        (out, s') \<Rightarrow> (out, t\<lparr>world := s', calls := Suc (calls t)\<rparr>))"

text \<open>\<open>computeBackoff(attempt, retry)\<close> followed by \<open>await delay(wait)\<close>.\<close>

definition backoff_wait :: "int \<Rightarrow> retry_options \<Rightarrow> (nat \<Rightarrow> rat) \<Rightarrow> 's trace \<Rightarrow> 's trace" where
  "backoff_wait attempt retry rnd t =
     (let wait = computeBackoff attempt retry (rnd (draws t)) in
      t\<lparr>waits := waits t @ [wait],
        draws := (if jitter retry then Suc (draws t) else draws t)\<rparr>)"

text \<open>
  The body of the \<open>try\<close> block: \<open>const res = await fn(); return normalizeSuccess(res)\<close>.
  \<open>Inl\<close> is the value the \<open>catch\<close> clause receives.
\<close>

definition try_block :: "'s exchange \<Rightarrow> 's trace \<Rightarrow> (axios_error + jsval) \<times> 's trace" where
  "try_block fn t =
     (case invoke fn t of
        (Inr res, t') \<Rightarrow> (normalizeSuccess res, t')
      | (Inl err, t') \<Rightarrow> (Inl err, t'))"

text \<open>
  The loop of \<open>run\<close>. \<open>Inr\<close> is the value the promise of \<open>run\<close> resolves with,
  \<open>Inl\<close> a value it would reject with: \<open>normalizeError\<close> is called inside the
  \<open>catch\<close> clause, where nothing catches what it throws.
\<close>

function run_loop ::
  "'s exchange \<Rightarrow> retry_options \<Rightarrow> (nat \<Rightarrow> rat) \<Rightarrow> int \<Rightarrow> int \<Rightarrow> 's trace
     \<Rightarrow> (axios_error + jsval) \<times> 's trace"
where
  "run_loop fn retry rnd maxAttempts attempt t =
     (if attempt < maxAttempts then
        (case try_block fn t of
           (Inr result, t') \<Rightarrow> (Inr result, t')
         | (Inl err, t') \<Rightarrow>
             (if attempt + 1 \<ge> maxAttempts \<or> \<not> isRetriable err
              then (normalizeError err, t')
              else run_loop fn retry rnd maxAttempts (attempt + 1)
                     (backoff_wait (attempt + 1) retry rnd t')))
      else (Inr (JObj [(''status'', JBool False),
                       (''data'', JObj [(''message'', JStr ''Unexpected client error'')])]), t))"
  by pat_completeness auto
termination
  by (relation "measure (\<lambda>(fn, retry, rnd, maxAttempts, attempt, t). nat (maxAttempts - attempt))") auto

declare run_loop.simps [simp del]

definition run :: "'s exchange \<Rightarrow> partial_retry option \<Rightarrow> (nat \<Rightarrow> rat) \<Rightarrow> 's
    \<Rightarrow> (axios_error + jsval) \<times> 's trace" where
  "run fn o_retry rnd s =
     (let retry = merge_retry o_retry;
          maxAttempts = 1 + max 0 (retries retry)
      in run_loop fn retry rnd maxAttempts 0 (start s))"

section \<open>Method surface\<close>

text \<open>
  How a call of a method ends: \<open>Throws\<close>, an error raised synchronously by the call
  itself, before any promise exists; \<open>Rejects\<close>, a promise that rejects with the
  error (what a \<open>throw\<close> inside an \<open>async\<close> function becomes); \<open>Resolves\<close>, a
  promise that resolves with a value.
\<close>

datatype 'a outcome = Throws axios_error | Rejects axios_error | Resolves 'a

text \<open>
  \<open>String.prototype.trim\<close> removes white space and line terminators from both ends;
  in the Latin-1 range these are U+0009 to U+000D, U+0020 and U+00A0.
\<close>

definition is_space :: "char \<Rightarrow> bool" where
  "is_space c = ((of_char c :: nat) \<in> {9, 10, 11, 12, 13, 32, 160})"

definition trim :: "string \<Rightarrow> string" where
  "trim s = rev (dropWhile is_space (rev (dropWhile is_space s)))"

text \<open>
  \<open>validateUrl\<close>: \<open>Inl\<close> is the error thrown. A value that is not a
  string is refused by \<open>!url\<close> or by the \<open>typeof\<close> test, the empty string by
  \<open>!url\<close>, and only a non-empty string reaches \<open>url.trim()\<close>.
\<close>

fun validateUrl :: "jsval \<Rightarrow> axios_error + unit" where
  "validateUrl (JStr s) =
     (if s = [] \<or> trim s = [] then Inl (js_Error ''URL must be a non-empty string'')
      else Inr ())"
| "validateUrl v = Inl (js_Error ''URL must be a non-empty string'')"

text \<open>The string a validated path is.\<close>

fun str_of :: "jsval \<Rightarrow> string" where
  "str_of (JStr s) = s"
| "str_of v = []"

text \<open>
  The per-call options. A field the caller left out is \<open>undefined\<close> (\<open>None\<close> for
  \<open>retry\<close> and \<open>fieldName\<close>). The values of \<open>signal\<close> and \<open>onUploadProgress\<close>
  are opaque to the client and handed to the transport as they are.
\<close>

record request_options =
  opt_params :: jsval
  opt_headers :: jsval
  opt_signal :: jsval
  opt_timeout :: jsval
  opt_responseType :: jsval
  opt_retry :: "partial_retry option"
  opt_onUploadProgress :: jsval
  opt_fieldName :: "string option"

text \<open>The options of a call that passes none: \<open>options = {}\<close>.\<close>

definition no_options :: request_options where
  "no_options = \<lparr>opt_params = JUndefined, opt_headers = JUndefined, opt_signal = JUndefined,
     opt_timeout = JUndefined, opt_responseType = JUndefined, opt_retry = None,
     opt_onUploadProgress = JUndefined, opt_fieldName = None\<rparr>"

record axios_config =
  cfg_params :: jsval
  cfg_headers :: jsval
  cfg_signal :: jsval
  cfg_timeout :: jsval
  cfg_responseType :: jsval
  cfg_onUploadProgress :: jsval

datatype http_verb = GET | POST | PUT | PATCH | DELETE

datatype form_value = FText string | FBlob string

datatype req_body = NoBody | Payload jsval | Form "(string \<times> form_value) list"

record request =
  req_verb :: http_verb
  req_url :: string
  req_body :: req_body
  req_config :: axios_config

text \<open>
  The transport (the Axios instance): one request in one state of the world gives the
  outcome of one exchange and the next state.
\<close>

type_synonym 's transport = "request \<Rightarrow> 's exchange"

definition no_config :: axios_config where
  "no_config = \<lparr>cfg_params = JUndefined, cfg_headers = JUndefined, cfg_signal = JUndefined,
     cfg_timeout = JUndefined, cfg_responseType = JUndefined, cfg_onUploadProgress = JUndefined\<rparr>"

text \<open>\<open>cfg({ params, headers, signal, timeout, responseType })\<close>.\<close>

definition cfg_query :: "request_options \<Rightarrow> axios_config" where
  "cfg_query options =
     no_config\<lparr>cfg_params := opt_params options, cfg_headers := opt_headers options,
       cfg_signal := opt_signal options, cfg_timeout := opt_timeout options,
       cfg_responseType := opt_responseType options\<rparr>"

text \<open>\<open>cfg({ headers, signal, timeout, responseType })\<close>.\<close>

definition cfg_body :: "request_options \<Rightarrow> axios_config" where
  "cfg_body options =
     no_config\<lparr>cfg_headers := opt_headers options, cfg_signal := opt_signal options,
       cfg_timeout := opt_timeout options, cfg_responseType := opt_responseType options\<rparr>"

text \<open>A method that is not \<open>async\<close> returns the promise of \<open>run\<close>.\<close>

definition promise :: "(axios_error + jsval) \<times> 's trace \<Rightarrow> jsval outcome \<times> 's trace" where
  "promise rt =
     (case rt of
        (Inr r, t) \<Rightarrow> (Resolves r, t)
      | (Inl e, t) \<Rightarrow> (Rejects e, t))"

text \<open>
  The plain methods: \<open>validateUrl(url)\<close>, whose error the call throws, then
  \<open>run\<close> on the closure that performs the request. \<open>remove_op\<close> is the method
  \<open>remove\<close>.
\<close>

definition getMany :: "'s transport \<Rightarrow> jsval \<Rightarrow> request_options \<Rightarrow> (nat \<Rightarrow> rat) \<Rightarrow> 's
    \<Rightarrow> jsval outcome \<times> 's trace" where
  "getMany api url options rnd s =
     (case validateUrl url of
        Inl e \<Rightarrow> (Throws e, start s)
      | Inr _ \<Rightarrow>
          promise
            (run (api \<lparr>req_verb = GET, req_url = str_of url, req_body = NoBody,
                        req_config = cfg_query options\<rparr>)
               (opt_retry options) rnd s))"

definition getOne :: "'s transport \<Rightarrow> jsval \<Rightarrow> request_options \<Rightarrow> (nat \<Rightarrow> rat) \<Rightarrow> 's
    \<Rightarrow> jsval outcome \<times> 's trace" where
  "getOne api url options rnd s =
     (case validateUrl url of
        Inl e \<Rightarrow> (Throws e, start s)
      | Inr _ \<Rightarrow>
          promise
            (run (api \<lparr>req_verb = GET, req_url = str_of url, req_body = NoBody,
                        req_config = cfg_query options\<rparr>)
               (opt_retry options) rnd s))"

definition post :: "'s transport \<Rightarrow> jsval \<Rightarrow> jsval \<Rightarrow> request_options \<Rightarrow> (nat \<Rightarrow> rat) \<Rightarrow> 's
    \<Rightarrow> jsval outcome \<times> 's trace" where
  "post api url payload options rnd s =
     (case validateUrl url of
        Inl e \<Rightarrow> (Throws e, start s)
      | Inr _ \<Rightarrow>
          promise
            (run (api \<lparr>req_verb = POST, req_url = str_of url, req_body = Payload payload,
                        req_config = cfg_body options\<rparr>)
               (opt_retry options) rnd s))"

definition put :: "'s transport \<Rightarrow> jsval \<Rightarrow> jsval \<Rightarrow> request_options \<Rightarrow> (nat \<Rightarrow> rat) \<Rightarrow> 's
    \<Rightarrow> jsval outcome \<times> 's trace" where
  "put api url payload options rnd s =
     (case validateUrl url of
        Inl e \<Rightarrow> (Throws e, start s)
      | Inr _ \<Rightarrow>
          promise
            (run (api \<lparr>req_verb = PUT, req_url = str_of url, req_body = Payload payload,
                        req_config = cfg_body options\<rparr>)
               (opt_retry options) rnd s))"

definition patch :: "'s transport \<Rightarrow> jsval \<Rightarrow> jsval \<Rightarrow> request_options \<Rightarrow> (nat \<Rightarrow> rat) \<Rightarrow> 's
    \<Rightarrow> jsval outcome \<times> 's trace" where
  "patch api url payload options rnd s =
     (case validateUrl url of
        Inl e \<Rightarrow> (Throws e, start s)
      | Inr _ \<Rightarrow>
          promise
            (run (api \<lparr>req_verb = PATCH, req_url = str_of url, req_body = Payload payload,
                        req_config = cfg_body options\<rparr>)
               (opt_retry options) rnd s))"

definition remove_op :: "'s transport \<Rightarrow> jsval \<Rightarrow> request_options \<Rightarrow> (nat \<Rightarrow> rat) \<Rightarrow> 's
    \<Rightarrow> jsval outcome \<times> 's trace" where
  "remove_op api url options rnd s =
     (case validateUrl url of
        Inl e \<Rightarrow> (Throws e, start s)
      | Inr _ \<Rightarrow>
          promise
            (run (api \<lparr>req_verb = DELETE, req_url = str_of url, req_body = NoBody,
                        req_config = cfg_query options\<rparr>)
               (opt_retry options) rnd s))"

text \<open>
  \<open>upload\<close>. The data is a \<open>FormData\<close>, a \<open>Blob\<close> or \<open>File\<close>, or any other
  value. \<open>to_str\<close> stands for JavaScript's \<open>String(value)\<close> on a value that is not a
  string, a built-in of the language.
\<close>

datatype upload_data = UFormData "(string \<times> form_value) list" | UBlob string | UValue jsval

definition js_string :: "(jsval \<Rightarrow> string) \<Rightarrow> jsval \<Rightarrow> string" where
  "js_string to_str v = (case v of JStr s \<Rightarrow> s | _ \<Rightarrow> to_str v)"

definition form_fields :: "(jsval \<Rightarrow> string) \<Rightarrow> jsval \<Rightarrow> (string \<times> form_value) list" where
  "form_fields to_str v =
     map (\<lambda>(key, val). (key, FText (js_string to_str val)))
       (filter (\<lambda>(key, val). val \<noteq> JNull \<and> val \<noteq> JUndefined) (spread v))"

definition build_form :: "(jsval \<Rightarrow> string) \<Rightarrow> string \<Rightarrow> upload_data
    \<Rightarrow> axios_error + (string \<times> form_value) list" where
  "build_form to_str fieldName d =
     (case d of
        UFormData fd \<Rightarrow> Inr fd
      | UBlob b \<Rightarrow> Inr [(fieldName, FBlob b)]
      | UValue v \<Rightarrow>
          if truthy v \<and> is_object v then Inr (form_fields to_str v)
          else Inl (js_Error
                      ''Invalid upload data type. Expected FormData, Blob, File, or object.''))"

definition cfg_upload :: "request_options \<Rightarrow> axios_config" where
  "cfg_upload options =
     no_config\<lparr>cfg_headers :=
         JObj (set_prop ''Content-Type'' (JStr ''multipart/form-data'')
                 (spread (js_or (opt_headers options) (JObj [])))),
       cfg_signal := opt_signal options, cfg_timeout := opt_timeout options,
       cfg_onUploadProgress := opt_onUploadProgress options\<rparr>"

definition upload :: "(jsval \<Rightarrow> string) \<Rightarrow> 's transport \<Rightarrow> jsval \<Rightarrow> upload_data \<Rightarrow> request_options
    \<Rightarrow> (nat \<Rightarrow> rat) \<Rightarrow> 's \<Rightarrow> jsval outcome \<times> 's trace" where
  "upload to_str api url d options rnd s =
     (case validateUrl url of
        Inl e \<Rightarrow> (Throws e, start s)
      | Inr _ \<Rightarrow>
          (case build_form to_str (override ''file'' (opt_fieldName options)) d of
             Inl e \<Rightarrow> (Throws e, start s)
           | Inr formData \<Rightarrow>
               promise
                 (run (api \<lparr>req_verb = POST, req_url = str_of url, req_body = Form formData,
                             req_config = cfg_upload options\<rparr>)
                    (opt_retry options) rnd s)))"

text \<open>
  \<open>download\<close> is an \<open>async\<close> function: whatever its body throws, the validation
  error included, rejects the promise it returns. Its closure stores each response it
  receives in the variable \<open>response\<close>, here the second component of the state.
  \<open>match_filename\<close> stands for the first group of the match of the source's regular
  expression on the header (\<open>None\<close> when it does not match).
\<close>

definition download_exchange :: "'s transport \<Rightarrow> request \<Rightarrow> ('s \<times> axios_response option) exchange" where
  "download_exchange api req sr =
     (case api req (fst sr) of
        (Inr res, s') \<Rightarrow> (Inr res, (s', Some res))
      | (Inl err, s') \<Rightarrow> (Inl err, (s', snd sr)))"

definition cfg_download :: "request_options \<Rightarrow> axios_config" where
  "cfg_download options =
     no_config\<lparr>cfg_params := opt_params options, cfg_headers := opt_headers options,
       cfg_signal := opt_signal options, cfg_timeout := opt_timeout options,
       cfg_responseType := JStr ''blob''\<rparr>"

definition strip_quotes :: "string \<Rightarrow> string" where
  "strip_quotes g = filter (\<lambda>c. c \<noteq> CHR 0x22 \<and> c \<noteq> CHR 0x27) g"

definition extract_filename :: "(string \<Rightarrow> string option) \<Rightarrow> axios_response option \<Rightarrow> jsval" where
  "extract_filename match_filename r =
     (case r of
        None \<Rightarrow> JUndefined
      | Some res \<Rightarrow>
          (case map_of (headers res) ''content-disposition'' of
             None \<Rightarrow> JUndefined
           | Some contentDisposition \<Rightarrow>
               if contentDisposition = [] then JUndefined
               else (case match_filename contentDisposition of
                       None \<Rightarrow> JUndefined
                     | Some g \<Rightarrow> if g = [] then JUndefined else JStr (strip_quotes g))))"

definition download :: "(string \<Rightarrow> string option) \<Rightarrow> 's transport \<Rightarrow> jsval \<Rightarrow> request_options
    \<Rightarrow> (nat \<Rightarrow> rat) \<Rightarrow> 's \<Rightarrow> jsval outcome \<times> ('s \<times> axios_response option) trace" where
  "download match_filename api url options rnd s =
     (case validateUrl url of
        Inl e \<Rightarrow> (Rejects e, start (s, None))
      | Inr _ \<Rightarrow>
          (case run (download_exchange api
                       \<lparr>req_verb = GET, req_url = str_of url, req_body = NoBody,
                        req_config = cfg_download options\<rparr>)
                  (opt_retry options) rnd (s, None) of
             (Inl e, t) \<Rightarrow> (Rejects e, t)
           | (Inr result, t) \<Rightarrow>
               if \<not> truthy (get_prop ''status'' result) then (Resolves result, t)
               else (Resolves
                       (JObj [(''status'', JBool True),
                              (''data'', JObj [(''blob'', get_prop ''data'' result),
                                               (''filename'',
                                                extract_filename match_filename (snd (world t)))])]),
                     t)))"

section \<open>Resource sugar\<close>

text \<open>
  \<open>resource(baseUrl, clientOptions)\<close> validates the base path when the resource is
  built; the operations below are those of a resource that was built, whose base path is
  therefore a string. A template literal converts the value it embeds to a string.
\<close>

definition resource :: "jsval \<Rightarrow> axios_error + string" where
  "resource baseUrl = (case validateUrl baseUrl of Inl e \<Rightarrow> Inl e | Inr _ \<Rightarrow> Inr (str_of baseUrl))"

definition validateId :: "jsval \<Rightarrow> axios_error + unit" where
  "validateId ident =
     (if ident = JNull \<or> ident = JUndefined \<or> ident = JStr []
      then Inl (js_Error ''Resource ID must be provided and non-empty'') else Inr ())"

fun validateSubpath :: "jsval \<Rightarrow> axios_error + unit" where
  "validateSubpath (JStr s) =
     (if s = [] \<or> trim s = [] then Inl (js_Error ''Subpath must be a non-empty string'')
      else Inr ())"
| "validateSubpath v = Inl (js_Error ''Subpath must be a non-empty string'')"

definition sub_url :: "(jsval \<Rightarrow> string) \<Rightarrow> string \<Rightarrow> jsval \<Rightarrow> jsval" where
  "sub_url to_str baseUrl v = JStr (baseUrl @ ''/'' @ js_string to_str v)"

text \<open>\<open>{ ...opts.params, ...query }\<close>.\<close>

definition merge_props :: "jsval \<Rightarrow> jsval \<Rightarrow> jsval" where
  "merge_props a b = JObj (foldl (\<lambda>acc (k, v). set_prop k v acc) (spread a) (spread b))"

definition resource_list :: "'s transport \<Rightarrow> string \<Rightarrow> jsval \<Rightarrow> request_options \<Rightarrow> (nat \<Rightarrow> rat) \<Rightarrow> 's
    \<Rightarrow> jsval outcome \<times> 's trace" where
  "resource_list api baseUrl query opts rnd s =
     getMany api (JStr baseUrl) (opts\<lparr>opt_params := merge_props (opt_params opts) query\<rparr>) rnd s"

definition resource_get :: "(jsval \<Rightarrow> string) \<Rightarrow> 's transport \<Rightarrow> string \<Rightarrow> jsval \<Rightarrow> request_options
    \<Rightarrow> (nat \<Rightarrow> rat) \<Rightarrow> 's \<Rightarrow> jsval outcome \<times> 's trace" where
  "resource_get to_str api baseUrl ident opts rnd s =
     (case validateId ident of
        Inl e \<Rightarrow> (Throws e, start s)
      | Inr _ \<Rightarrow> getOne api (sub_url to_str baseUrl ident) opts rnd s)"

definition resource_create :: "'s transport \<Rightarrow> string \<Rightarrow> jsval \<Rightarrow> request_options \<Rightarrow> (nat \<Rightarrow> rat) \<Rightarrow> 's
    \<Rightarrow> jsval outcome \<times> 's trace" where
  "resource_create api baseUrl payload opts rnd s = post api (JStr baseUrl) payload opts rnd s"

definition resource_update :: "(jsval \<Rightarrow> string) \<Rightarrow> 's transport \<Rightarrow> string \<Rightarrow> jsval \<Rightarrow> jsval
    \<Rightarrow> request_options \<Rightarrow> (nat \<Rightarrow> rat) \<Rightarrow> 's \<Rightarrow> jsval outcome \<times> 's trace" where
  "resource_update to_str api baseUrl ident payload opts rnd s =
     (case validateId ident of
        Inl e \<Rightarrow> (Throws e, start s)
      | Inr _ \<Rightarrow> put api (sub_url to_str baseUrl ident) payload opts rnd s)"

definition resource_patch :: "(jsval \<Rightarrow> string) \<Rightarrow> 's transport \<Rightarrow> string \<Rightarrow> jsval \<Rightarrow> jsval
    \<Rightarrow> request_options \<Rightarrow> (nat \<Rightarrow> rat) \<Rightarrow> 's \<Rightarrow> jsval outcome \<times> 's trace" where
  "resource_patch to_str api baseUrl ident payload opts rnd s =
     (case validateId ident of
        Inl e \<Rightarrow> (Throws e, start s)
      | Inr _ \<Rightarrow> patch api (sub_url to_str baseUrl ident) payload opts rnd s)"

definition resource_remove :: "(jsval \<Rightarrow> string) \<Rightarrow> 's transport \<Rightarrow> string \<Rightarrow> jsval \<Rightarrow> request_options
    \<Rightarrow> (nat \<Rightarrow> rat) \<Rightarrow> 's \<Rightarrow> jsval outcome \<times> 's trace" where
  "resource_remove to_str api baseUrl ident opts rnd s =
     (case validateId ident of
        Inl e \<Rightarrow> (Throws e, start s)
      | Inr _ \<Rightarrow> remove_op api (sub_url to_str baseUrl ident) opts rnd s)"

text \<open>
  \<open>action(subpath, payload?, opts)\<close>: a payload that was left out is \<open>undefined\<close>,
  and the request is then a GET.
\<close>

definition resource_action :: "(jsval \<Rightarrow> string) \<Rightarrow> 's transport \<Rightarrow> string \<Rightarrow> jsval \<Rightarrow> jsval
    \<Rightarrow> request_options \<Rightarrow> (nat \<Rightarrow> rat) \<Rightarrow> 's \<Rightarrow> jsval outcome \<times> 's trace" where
  "resource_action to_str api baseUrl subpath payload opts rnd s =
     (case validateSubpath subpath of
        Inl e \<Rightarrow> (Throws e, start s)
      | Inr _ \<Rightarrow>
          if payload \<noteq> JUndefined
          then post api (sub_url to_str baseUrl subpath) payload opts rnd s
          else getOne api (sub_url to_str baseUrl subpath) opts rnd s)"

section \<open>Vocabulary of the specification\<close>

text \<open>
  The canonical shape \<open>{status: b, data: ...}\<close>: an object with a \<open>status\<close> property
  that is the boolean \<open>b\<close> and a \<open>data\<close> property.
\<close>

definition canonical :: "bool \<Rightarrow> jsval \<Rightarrow> bool" where
  "canonical b v =
     (case v of
        JObj kvs \<Rightarrow> lookup ''status'' kvs = Some (JBool b) \<and> lookup ''data'' kvs \<noteq> None
      | _ \<Rightarrow> False)"

text \<open>The value is an object (or an array) that has the property.\<close>

definition has_key :: "string \<Rightarrow> jsval \<Rightarrow> bool" where
  "has_key k v = (js_in k v = Some True)"

text \<open>A Result: its \<open>status\<close> is \<open>true\<close> or \<open>false\<close> and it has a \<open>data\<close> property.\<close>

definition is_result :: "jsval \<Rightarrow> bool" where
  "is_result v =
     ((get_prop ''status'' v = JBool True \<or> get_prop ''status'' v = JBool False)
      \<and> has_key ''data'' v)"

text \<open>
  A path that is empty, not a string, or made of white space only; an identifier that
  is \<open>null\<close>, \<open>undefined\<close> or the empty string.
\<close>

definition blank_path :: "jsval \<Rightarrow> bool" where
  "blank_path v = (case v of JStr s \<Rightarrow> list_all is_space s | _ \<Rightarrow> True)"

definition missing_id :: "jsval \<Rightarrow> bool" where
  "missing_id v = (v = JNull \<or> v = JUndefined \<or> v = JStr [])"

text \<open>The fields of an error body that is an object (or an array), none otherwise.\<close>

definition body_fields :: "axios_error \<Rightarrow> (string \<times> jsval) list" where
  "body_fields err =
     (if truthy (response_data err) \<and> is_object (response_data err)
      then spread (response_data err) else [])"

section \<open>Auxiliary lemmas\<close>

subsection \<open>Objects and array indices\<close>

lemma lookup_set_prop: "lookup k (set_prop k' v kvs) = (if k = k' then Some v else lookup k kvs)"
  by (induction kvs) auto

lemma lookup_None_iff: "lookup k kvs = None \<longleftrightarrow> k \<notin> fst ` set kvs"
  by (induction kvs) (auto simp: image_iff split: if_splits)

lemma digit_code: "d < 10 \<Longrightarrow> (of_char (digit d) :: nat) = 48 + d"
  by (simp add: digit_def)

lemma show_nat_small: "n < 10 \<Longrightarrow> show_nat n = [digit n]"
  by (subst show_nat.simps) simp

lemma show_nat_big: "\<not> n < 10 \<Longrightarrow> show_nat n = show_nat (n div 10) @ [digit (n mod 10)]"
  by (subst show_nat.simps) simp

lemma show_nat_digits: "c \<in> set (show_nat n) \<Longrightarrow> \<exists>d<10. c = digit d"
proof (induction n rule: show_nat.induct)
  case (1 n)
  show ?case
  proof (cases "n < 10")
    case True
    with 1(2) show ?thesis by (auto simp: show_nat_small)
  next
    case False
    have m: "n mod 10 < 10" by simp
    from False 1(2) have "c \<in> set (show_nat (n div 10)) \<or> c = digit (n mod 10)"
      by (auto simp: show_nat_big)
    then show ?thesis
    proof
      assume "c \<in> set (show_nat (n div 10))"
      with False 1(1) show ?thesis by blast
    next
      assume "c = digit (n mod 10)"
      with m show ?thesis by blast
    qed
  qed
qed

lemma show_nat_no_s: "CHR ''s'' \<notin> set (show_nat n)"
proof
  assume "CHR ''s'' \<in> set (show_nat n)"
  then obtain d where d: "d < 10" "CHR ''s'' = digit d" using show_nat_digits by blast
  then have "(of_char (CHR ''s'') :: nat) = 48 + d" using digit_code by metis
  with d(1) show False by simp
qed

lemma show_nat_ne_status: "show_nat n \<noteq> ''status''"
  using show_nat_no_s[of n] by auto

lemma arr_no_status: "lookup ''status'' (zip (map show_nat [0..<length xs]) xs) = None"
proof -
  have "''status'' \<notin> set (map show_nat [0..<length xs])"
    by (simp add: image_iff show_nat_ne_status[symmetric])
  then have "''status'' \<notin> fst ` set (zip (map show_nat [0..<length xs]) xs)"
    by (auto dest: set_zip_leftD)
  then show ?thesis by (simp add: lookup_None_iff)
qed

subsection \<open>The normalizers never throw\<close>

lemma has_shape_eq: "has_shape b v = Some (canonical b v)"
  by (cases v) (auto simp: has_shape_def canonical_def arr_no_status split: option.splits)

lemma normalizeSuccess_eq:
  "normalizeSuccess res =
     Inr (if canonical True (data res) then data res
          else JObj [(''status'', JBool True), (''data'', data res)])"
  by (simp add: normalizeSuccess_def has_shape_eq)

lemma normalizeError_eq:
  "normalizeError err =
     Inr (if canonical False (response_data err) then response_data err
          else JObj [(''status'', JBool False), (''data'', JObj (error_data err))])"
  by (simp add: normalizeError_def has_shape_eq)

lemma canonical_status: "canonical b v \<Longrightarrow> get_prop ''status'' v = JBool b \<and> has_key ''data'' v"
  by (cases v) (auto simp: canonical_def has_key_def)

lemma canonical_is_result: "canonical b v \<Longrightarrow> is_result v"
  by (cases b) (auto simp: is_result_def dest: canonical_status)

lemma normalizeSuccess_canonical: "\<exists>v. normalizeSuccess res = Inr v \<and> canonical True v"
  by (simp add: normalizeSuccess_eq canonical_def)

lemma normalizeError_canonical: "\<exists>v. normalizeError err = Inr v \<and> canonical False v"
  by (simp add: normalizeError_eq canonical_def)

subsection \<open>The loop\<close>


lemma calls_invoke: "invoke fn t = (out, t') \<Longrightarrow> calls t' = Suc (calls t)"
  by (auto simp: invoke_def split: prod.splits)

lemma calls_try_block: "try_block fn t = (out, t') \<Longrightarrow> calls t' = Suc (calls t)"
  by (auto simp: try_block_def split: prod.splits sum.splits dest: calls_invoke)

lemma try_block_Inr:
  "try_block fn t = (Inr v, t') \<Longrightarrow> canonical True v"
proof -
  assume a: "try_block fn t = (Inr v, t')"
  obtain out t0 where inv: "invoke fn t = (out, t0)" by (cases "invoke fn t")
  show "canonical True v"
  proof (cases out)
    case (Inl err)
    with a inv show ?thesis by (simp add: try_block_def)
  next
    case (Inr res)
    with a inv have "normalizeSuccess res = Inr v" by (simp add: try_block_def)
    with normalizeSuccess_canonical[of res] show ?thesis by auto
  qed
qed

lemma try_block_success:
  "invoke fn t = (Inr res, t') \<Longrightarrow> try_block fn t = (normalizeSuccess res, t')"
  by (simp add: try_block_def)

lemma try_block_failure:
  "invoke fn t = (Inl err, t') \<Longrightarrow> try_block fn t = (Inl err, t')"
  by (simp add: try_block_def)

lemma calls_backoff_wait [simp]: "calls (backoff_wait a retry rnd t) = calls t"
  by (simp add: backoff_wait_def Let_def)

lemma waits_backoff_wait [simp]:
  "length (waits (backoff_wait a retry rnd t)) = Suc (length (waits t))"
  by (simp add: backoff_wait_def Let_def)

lemma run_loop_stop:
  "\<not> attempt < maxAttempts \<Longrightarrow>
   run_loop fn retry rnd maxAttempts attempt t =
     (Inr (JObj [(''status'', JBool False),
                 (''data'', JObj [(''message'', JStr ''Unexpected client error'')])]), t)"
  by (subst run_loop.simps) simp

lemma run_loop_success:
  "attempt < maxAttempts \<Longrightarrow> invoke fn t = (Inr res, t') \<Longrightarrow>
   run_loop fn retry rnd maxAttempts attempt t = (normalizeSuccess res, t')"
  by (subst run_loop.simps) (simp add: try_block_success normalizeSuccess_eq)

lemma run_loop_final:
  "attempt < maxAttempts \<Longrightarrow> invoke fn t = (Inl err, t') \<Longrightarrow>
   maxAttempts \<le> attempt + 1 \<or> \<not> isRetriable err \<Longrightarrow>
   run_loop fn retry rnd maxAttempts attempt t = (normalizeError err, t')"
  by (subst run_loop.simps) (auto simp: try_block_failure)


lemma run_loop_result:
  "\<exists>v. fst (run_loop fn retry rnd maxAttempts attempt t) = Inr v \<and> is_result v"
proof (induction fn retry rnd maxAttempts attempt t rule: run_loop.induct)
  case (1 fn retry rnd maxAttempts attempt t)
  show ?case
  proof (cases "attempt < maxAttempts")
    case False
    then show ?thesis by (simp add: run_loop_stop is_result_def has_key_def)
  next
    case True
    obtain out t' where tb: "try_block fn t = (out, t')" by (cases "try_block fn t")
    show ?thesis
    proof (cases out)
      case (Inr v)
      with tb have "is_result v" using try_block_Inr canonical_is_result by blast
      with True tb Inr show ?thesis by (subst run_loop.simps) simp
    next
      case (Inl err)
      show ?thesis
      proof (cases "attempt + 1 \<ge> maxAttempts \<or> \<not> isRetriable err")
        case stop: True
        obtain v where "normalizeError err = Inr v" "canonical False v"
          using normalizeError_canonical by blast
        with True tb Inl stop canonical_is_result[of False v] show ?thesis
          by (subst run_loop.simps) auto
      next
        case go: False
        from 1[OF True tb[symmetric] Inl go] True tb Inl go show ?thesis
          by (subst run_loop.simps) auto
      qed
    qed
  qed
qed

lemma run_loop_calls_le:
  "int (calls (snd (run_loop fn retry rnd maxAttempts attempt t)))
     \<le> int (calls t) + max 0 (maxAttempts - attempt)"
proof (induction fn retry rnd maxAttempts attempt t rule: run_loop.induct)
  case (1 fn retry rnd maxAttempts attempt t)
  show ?case
  proof (cases "attempt < maxAttempts")
    case False
    then show ?thesis by (simp add: run_loop_stop)
  next
    case True
    obtain out t' where tb: "try_block fn t = (out, t')" by (cases "try_block fn t")
    note c = calls_try_block[OF tb]
    show ?thesis
    proof (cases out)
      case (Inr v)
      with True tb c show ?thesis by (subst run_loop.simps) simp
    next
      case (Inl err)
      show ?thesis
      proof (cases "attempt + 1 \<ge> maxAttempts \<or> \<not> isRetriable err")
        case stop: True
        with True tb Inl c show ?thesis by (subst run_loop.simps) auto
      next
        case go: False
        from 1[OF True tb[symmetric] Inl go] True tb Inl go c show ?thesis
          by (subst run_loop.simps) auto
      qed
    qed
  qed
qed


lemma run_loop_first_success:
  "fn s = (Inr res, s') \<Longrightarrow> 0 < maxAttempts \<Longrightarrow>
   run_loop fn retry rnd maxAttempts 0 (start s)
     = (normalizeSuccess res, \<lparr>world = s', calls = 1, waits = [], draws = 0\<rparr>)"
  by (simp add: run_loop_success[where res = res] invoke_def start_def)

lemma run_loop_first_final:
  "fn s = (Inl err, s') \<Longrightarrow> 0 < maxAttempts \<Longrightarrow> \<not> isRetriable err \<Longrightarrow>
   run_loop fn retry rnd maxAttempts 0 (start s)
     = (normalizeError err, \<lparr>world = s', calls = 1, waits = [], draws = 0\<rparr>)"
  by (simp add: run_loop_final[where err = err] invoke_def start_def)


subsection \<open>Retriability and backoff\<close>



subsection \<open>Powers of two and the exponent of a number\<close>

lemma pow2_powi: "pow2 n = 2 powi n"
  by (simp add: pow2_def power_int_def inverse_eq_divide power_one_over)

lemma pow2_pos [simp]: "0 < pow2 n"
  by (simp add: pow2_powi)

lemma pow2_ne0 [simp]: "pow2 n \<noteq> 0"
  by (simp add: pow2_powi)

lemma pow2_ge0 [simp]: "0 \<le> pow2 n"
  using pow2_pos[of n] by (rule less_imp_le)

lemma pow2_add: "pow2 (a + b) = pow2 a * pow2 b"
  by (simp add: pow2_powi power_int_add)

lemma pow2_nat [simp]: "pow2 (int k) = 2 ^ k"
  by (simp add: pow2_powi)

lemma pow2_0 [simp]: "pow2 0 = 1"
  by (simp add: pow2_def)

lemma pow2_1 [simp]: "pow2 1 = 2"
  by (simp add: pow2_def)

lemma pow2_Suc: "pow2 (n + 1) = 2 * pow2 n"
  by (simp add: pow2_add)

lemma pow2_mono: "a \<le> b \<Longrightarrow> pow2 a \<le> pow2 b"
proof -
  assume "a \<le> b"
  then obtain k where b: "b = a + int k" by (metis zle_iff_zadd)
  have "1 \<le> (2::rat) ^ k" by simp
  then have "pow2 a * 1 \<le> pow2 a * 2 ^ k" by (intro mult_left_mono) simp_all
  then show ?thesis by (simp add: b pow2_add)
qed

lemma pow2_strict_mono: "a < b \<Longrightarrow> pow2 a < pow2 b"
proof -
  assume "a < b"
  then have "a + 1 \<le> b" by simp
  then have "pow2 (a + 1) \<le> pow2 b" by (rule pow2_mono)
  moreover have "pow2 a < pow2 (a + 1)" by (simp add: pow2_Suc)
  ultimately show ?thesis by simp
qed

lemma pow2_le_iff: "pow2 a \<le> pow2 b \<longleftrightarrow> a \<le> b"
  using pow2_mono pow2_strict_mono by (metis not_le)

lemma pow2_less_iff: "pow2 a < pow2 b \<longleftrightarrow> a < b"
  using pow2_mono pow2_strict_mono by (metis not_le)

lemma pow2_split52: "pow2 e = pow2 (e - 52) * 2 ^ 52"
proof -
  have "pow2 e = pow2 ((e - 52) + 52)" by simp
  also have "\<dots> = pow2 (e - 52) * pow2 52" by (rule pow2_add)
  also have "pow2 52 = 2 ^ 52" by (simp add: pow2_def)
  finally show ?thesis .
qed

lemma pow2_split53: "pow2 (e + 1) = pow2 (e - 52) * 2 ^ 53"
proof -
  have "e + 1 = (e - 52) + 53" by simp
  then have "pow2 (e + 1) = pow2 ((e - 52) + 53)" by (rule arg_cong)
  also have "\<dots> = pow2 (e - 52) * pow2 53" by (rule pow2_add)
  also have "pow2 53 = 2 ^ 53" by (simp add: pow2_def)
  finally show ?thesis .
qed

lemma ilog2_bounds:
  assumes "0 < x"
  shows "pow2 (ilog2 x) \<le> x \<and> x < pow2 (ilog2 x + 1)"
proof -
  obtain p q where pq: "quotient_of x = (p, q)" by (cases "quotient_of x")
  have q: "0 < q" using pq by (rule quotient_of_denom_pos)
  have x: "x = of_int p / of_int q" using pq by (rule quotient_of_div)
  have p: "0 < p" using assms q x by (simp add: zero_less_divide_iff)
  define d where "d = bitlen p - bitlen q"
  from bitlen_bounds[OF p] have p1: "(2::int) ^ nat (bitlen p - 1) \<le> p" and p2: "p < 2 ^ nat (bitlen p)"
    by simp_all
  from bitlen_bounds[OF q] have q1: "(2::int) ^ nat (bitlen q - 1) \<le> q" and q2: "q < 2 ^ nat (bitlen q)"
    by simp_all
  have bp: "1 \<le> bitlen p"
  proof (rule ccontr)
    assume "\<not> 1 \<le> bitlen p"
    then have "nat (bitlen p) = 0" by simp
    with p2 p show False by simp
  qed
  have bq: "1 \<le> bitlen q"
  proof (rule ccontr)
    assume "\<not> 1 \<le> bitlen q"
    then have "nat (bitlen q) = 0" by simp
    with q2 q show False by simp
  qed
  have P1: "pow2 (bitlen p - 1) \<le> of_int p"
  proof -
    have "pow2 (bitlen p - 1) = of_int (2 ^ nat (bitlen p - 1))" using bp by (simp add: pow2_def)
    also have "\<dots> \<le> of_int p" using p1 by (simp only: of_int_le_iff)
    finally show ?thesis .
  qed
  have P2: "of_int p < pow2 (bitlen p)"
  proof -
    have "(of_int p :: rat) < of_int (2 ^ nat (bitlen p))" using p2 by (simp only: of_int_less_iff)
    also have "\<dots> = pow2 (bitlen p)" using bp by (simp add: pow2_def)
    finally show ?thesis .
  qed
  have Q1: "pow2 (bitlen q - 1) \<le> of_int q"
  proof -
    have "pow2 (bitlen q - 1) = of_int (2 ^ nat (bitlen q - 1))" using bq by (simp add: pow2_def)
    also have "\<dots> \<le> of_int q" using q1 by (simp only: of_int_le_iff)
    finally show ?thesis .
  qed
  have Q2: "of_int q < pow2 (bitlen q)"
  proof -
    have "(of_int q :: rat) < of_int (2 ^ nat (bitlen q))" using q2 by (simp only: of_int_less_iff)
    also have "\<dots> = pow2 (bitlen q)" using bq by (simp add: pow2_def)
    finally show ?thesis .
  qed
  have qpos: "(0::rat) < of_int q" using q by simp
  have upper: "x < pow2 (d + 1)"
  proof -
    have "of_int p < pow2 (bitlen p)" by (rule P2)
    also have "pow2 (bitlen p) = pow2 (d + 1) * pow2 (bitlen q - 1)"
      by (simp add: d_def pow2_add[symmetric])
    also have "\<dots> \<le> pow2 (d + 1) * of_int q" using Q1 by (intro mult_left_mono) simp_all
    finally have "of_int p < pow2 (d + 1) * of_int q" .
    then show ?thesis using qpos by (simp add: x pos_divide_less_eq)
  qed
  have lower: "pow2 (d - 1) \<le> x"
  proof -
    have "pow2 (d - 1) * of_int q \<le> pow2 (d - 1) * pow2 (bitlen q)"
      using Q2 by (intro mult_left_mono) simp_all
    also have "\<dots> = pow2 (bitlen p - 1)" by (simp add: d_def pow2_add[symmetric])
    also have "\<dots> \<le> of_int p" by (rule P1)
    finally show ?thesis using qpos by (simp add: x pos_le_divide_eq)
  qed
  show ?thesis
  proof (cases "pow2 d \<le> x")
    case True
    then have "ilog2 x = d" by (simp add: ilog2_def pq d_def Let_def)
    with True upper show ?thesis by simp
  next
    case False
    then have "ilog2 x = d - 1" by (simp add: ilog2_def pq d_def Let_def)
    with False lower show ?thesis by simp
  qed
qed

lemma ilog2_unique:
  assumes "0 < x" "pow2 e \<le> x" "x < pow2 (e + 1)"
  shows "ilog2 x = e"
proof -
  from ilog2_bounds[OF assms(1)] have a: "pow2 (ilog2 x) \<le> x" and b: "x < pow2 (ilog2 x + 1)"
    by simp_all
  from a assms(3) have "pow2 (ilog2 x) < pow2 (e + 1)" by simp
  then have 1: "ilog2 x < e + 1" by (simp add: pow2_less_iff)
  from assms(2) b have "pow2 e < pow2 (ilog2 x + 1)" by simp
  then have 2: "e < ilog2 x + 1" by (simp add: pow2_less_iff)
  from 1 2 show ?thesis by simp
qed

subsection \<open>Rounding to a double\<close>

lemma round_even_bounds: "\<lfloor>z\<rfloor> \<le> round_even z \<and> round_even z \<le> \<lfloor>z\<rfloor> + 1"
  by (simp add: round_even_def Let_def)

lemma round_even_of_int [simp]: "round_even (of_int n) = n"
  by (simp add: round_even_def Let_def)

lemma round_even_mono: "z \<le> z' \<Longrightarrow> round_even z \<le> round_even z'"
proof -
  assume le: "z \<le> z'"
  then have fl: "\<lfloor>z\<rfloor> \<le> \<lfloor>z'\<rfloor>" by (rule floor_mono)
  show ?thesis
  proof (cases "\<lfloor>z\<rfloor> = \<lfloor>z'\<rfloor>")
    case True
    with le show ?thesis by (auto simp: round_even_def Let_def)
  next
    case False
    with fl have "\<lfloor>z\<rfloor> + 1 \<le> \<lfloor>z'\<rfloor>" by simp
    with round_even_bounds[of z] round_even_bounds[of z'] show ?thesis by linarith
  qed
qed


lemma fl_0 [simp]: "fl 0 = 0"
  by (simp add: fl_def)

lemma fl_minus: "fl (- x) = - fl x"
  by (simp add: fl_def Let_def)

lemma fl_pos_eq:
  assumes "0 < x" "pow2 e \<le> x" "x < pow2 (e + 1)"
  shows "fl x = of_int (round_even (x / pow2 (e - 52))) * pow2 (e - 52)"
proof -
  have "ilog2 x = e" using assms by (rule ilog2_unique)
  with assms(1) show ?thesis by (simp add: fl_def Let_def)
qed

lemma binade_scaled:
  assumes "pow2 e \<le> x" "x < pow2 (e + 1)"
  shows "of_int (2 ^ 52) \<le> x / pow2 (e - 52)" and "x / pow2 (e - 52) < of_int (2 ^ 53)"
proof -
  note e = pow2_split52[of e] and e1 = pow2_split53[of e]
  show "of_int (2 ^ 52) \<le> x / pow2 (e - 52)"
    using assms(1) unfolding e by (simp add: pos_le_divide_eq mult.commute)
  show "x / pow2 (e - 52) < of_int (2 ^ 53)"
    using assms(2) unfolding e1 by (simp add: pos_divide_less_eq mult.commute)
qed

lemma fl_binade:
  assumes "0 < x" "pow2 e \<le> x" "x < pow2 (e + 1)"
  shows "pow2 e \<le> fl x" and "fl x \<le> pow2 (e + 1)"
proof -
  note s = binade_scaled[OF assms(2,3)]
  have e: "pow2 e = of_int (2 ^ 52) * pow2 (e - 52)"
    using pow2_split52[of e] by (simp add: mult.commute)
  have e1: "pow2 (e + 1) = of_int (2 ^ 53) * pow2 (e - 52)"
    using pow2_split53[of e] by (simp add: mult.commute)
  have "round_even (of_int (2 ^ 52)) \<le> round_even (x / pow2 (e - 52))"
    using s(1) by (rule round_even_mono)
  then have lo: "(2 ^ 52 :: int) \<le> round_even (x / pow2 (e - 52))"
    by (simp only: round_even_of_int)
  have "round_even (x / pow2 (e - 52)) \<le> round_even (of_int (2 ^ 53))"
    using s(2) by (intro round_even_mono) simp
  then have hi: "round_even (x / pow2 (e - 52)) \<le> (2 ^ 53 :: int)"
    by (simp only: round_even_of_int)
  have "(of_int (2 ^ 52) :: rat) \<le> of_int (round_even (x / pow2 (e - 52)))"
    using lo by (simp only: of_int_le_iff)
  then show "pow2 e \<le> fl x"
    unfolding e fl_pos_eq[OF assms] by (intro mult_right_mono) simp_all
  have "(of_int (round_even (x / pow2 (e - 52))) :: rat) \<le> of_int (2 ^ 53)"
    using hi by (simp only: of_int_le_iff)
  then show "fl x \<le> pow2 (e + 1)"
    unfolding e1 fl_pos_eq[OF assms] by (intro mult_right_mono) simp_all
qed

lemma fl_pos: "0 < x \<Longrightarrow> 0 < fl x"
proof -
  assume x: "0 < x"
  from ilog2_bounds[OF x] have "pow2 (ilog2 x) \<le> fl x"
    using fl_binade(1)[OF x] by simp
  then show ?thesis using pow2_pos[of "ilog2 x"] by linarith
qed

lemma fl_nonneg: "0 \<le> x \<Longrightarrow> 0 \<le> fl x"
  using fl_pos[of x] by (cases "x = 0") (auto simp: less_le)

lemma fl_mono_pos:
  assumes "0 < x" "x \<le> y"
  shows "fl x \<le> fl y"
proof -
  have y: "0 < y" using assms by simp
  note bx = ilog2_bounds[OF assms(1)] and bY = ilog2_bounds[OF y]
  have "pow2 (ilog2 x) < pow2 (ilog2 y + 1)" using bx bY assms(2) by linarith
  then have le: "ilog2 x \<le> ilog2 y" by (simp add: pow2_less_iff)
  show ?thesis
  proof (cases "ilog2 x = ilog2 y")
    case True
    have ex: "fl x = of_int (round_even (x / pow2 (ilog2 y - 52))) * pow2 (ilog2 y - 52)"
      using fl_pos_eq[OF assms(1)] bx True by simp
    have ey: "fl y = of_int (round_even (y / pow2 (ilog2 y - 52))) * pow2 (ilog2 y - 52)"
      using fl_pos_eq[OF y] bY by simp
    have "x / pow2 (ilog2 y - 52) \<le> y / pow2 (ilog2 y - 52)"
      using assms(2) by (simp add: divide_right_mono)
    then have "round_even (x / pow2 (ilog2 y - 52)) \<le> round_even (y / pow2 (ilog2 y - 52))"
      by (rule round_even_mono)
    then have "(of_int (round_even (x / pow2 (ilog2 y - 52))) :: rat)
        \<le> of_int (round_even (y / pow2 (ilog2 y - 52)))"
      by (simp only: of_int_le_iff)
    then show ?thesis unfolding ex ey by (intro mult_right_mono) simp_all
  next
    case False
    with le have "ilog2 x + 1 \<le> ilog2 y" by simp
    then have "pow2 (ilog2 x + 1) \<le> pow2 (ilog2 y)" by (rule pow2_mono)
    moreover have "fl x \<le> pow2 (ilog2 x + 1)" using fl_binade(2)[OF assms(1)] bx by simp
    moreover have "pow2 (ilog2 y) \<le> fl y" using fl_binade(1)[OF y] bY by simp
    ultimately show ?thesis by linarith
  qed
qed

lemma fl_mono: "x \<le> y \<Longrightarrow> fl x \<le> fl y"
proof -
  assume le: "x \<le> y"
  consider "0 < x" | "x \<le> 0" "0 \<le> y" | "y < 0" by linarith
  then show ?thesis
  proof cases
    case 1
    then show ?thesis using le by (rule fl_mono_pos)
  next
    case 2
    have "0 \<le> fl (- x)" using 2(1) by (intro fl_nonneg) simp
    then have "fl x \<le> 0" by (simp add: fl_minus)
    moreover have "0 \<le> fl y" using 2(2) by (rule fl_nonneg)
    ultimately show ?thesis by simp
  next
    case 3
    then have "0 < - y" "- y \<le> - x" using le by simp_all
    then have "fl (- y) \<le> fl (- x)" by (rule fl_mono_pos)
    then show ?thesis by (simp add: fl_minus)
  qed
qed


lemma fl_exact:
  assumes "0 < x" "pow2 e \<le> x" "x < pow2 (e + 1)" "x = of_int m * pow2 (e - 52)"
  shows "fl x = x"
proof -
  have "x / pow2 (e - 52) = of_int m" using assms(4) by simp
  then show ?thesis unfolding fl_pos_eq[OF assms(1-3)] using assms(4) by simp
qed

lemma fl_pow2 [simp]: "fl (pow2 k) = pow2 k"
proof (rule fl_exact[where e = k and m = "2 ^ 52"])
  show "pow2 k = of_int (2 ^ 52) * pow2 (k - 52)"
    using pow2_split52[of k] by (simp add: mult.commute)
  show "pow2 k < pow2 (k + 1)" by (simp add: pow2_less_iff)
qed simp_all

lemma fl_idem_pos:
  assumes x: "0 < x"
  shows "fl (fl x) = fl x"
proof -
  define e where "e = ilog2 x"
  have b: "pow2 e \<le> x" "x < pow2 (e + 1)" using ilog2_bounds[OF x] by (simp_all add: e_def)
  note fb = fl_binade[OF x b]
  show ?thesis
  proof (cases "fl x = pow2 (e + 1)")
    case True
    then show ?thesis by simp
  next
    case False
    with fb(2) have lt: "fl x < pow2 (e + 1)" by simp
    show ?thesis
      by (rule fl_exact[OF fl_pos[OF x] fb(1) lt]) (rule fl_pos_eq[OF x b])
  qed
qed

lemma fl_idem [simp]: "fl (fl x) = fl x"
proof -
  consider "0 < x" | "x = 0" | "0 < - x" by linarith
  then show ?thesis
  proof cases
    case 1
    then show ?thesis by (rule fl_idem_pos)
  next
    case 2
    then show ?thesis by simp
  next
    case 3
    from fl_idem_pos[OF 3] show ?thesis by (simp add: fl_minus)
  qed
qed




lemma is_double_fl [simp]: "is_double (fl x)"
  by (simp add: is_double_def)




lemma fl_ge_double: "d \<le> x \<Longrightarrow> is_double d \<Longrightarrow> d \<le> fl x"
  using fl_mono[of d x] by (simp add: is_double_def)



subsection \<open>The jitter branch\<close>


subsection \<open>The data of a synthesized Failure\<close>

lemma error_message_truthy: "truthy (error_message err)"
  by (simp add: error_message_def js_or_def)

lemma error_message_priority:
  "error_message err =
     (if truthy (get_prop ''message'' (response_data err)) then get_prop ''message'' (response_data err)
      else if truthy (get_prop ''error'' (response_data err)) then get_prop ''error'' (response_data err)
      else case message err of
             None \<Rightarrow> JStr ''Request failed''
           | Some m \<Rightarrow> if m \<noteq> [] then JStr m else JStr ''Request failed'')"
  by (simp add: error_message_def js_or_def opt_str_def split: option.splits)

lemma lookup_error_data:
  "lookup k (error_data err) =
     (if k = ''code'' \<and> truthy (opt_str (code err)) then Some (opt_str (code err))
      else if k = ''statusCode'' \<and> truthy (opt_num (response_status err))
        then Some (opt_num (response_status err))
      else if k = ''message'' then Some (error_message err)
      else lookup k (body_fields err))"
  by (simp add: error_data_def body_fields_def Let_def lookup_set_prop)



subsection \<open>Validation\<close>

lemma trim_Nil_iff: "trim s = [] \<longleftrightarrow> list_all is_space s"
proof -
  have "trim s = [] \<longleftrightarrow> (\<forall>x\<in>set (dropWhile is_space s). is_space x)"
    by (simp add: trim_def)
  also have "\<dots> \<longleftrightarrow> dropWhile is_space s = []"
  proof
    assume a: "\<forall>x\<in>set (dropWhile is_space s). is_space x"
    show "dropWhile is_space s = []"
    proof (rule ccontr)
      assume "dropWhile is_space s \<noteq> []"
      then have "\<not> is_space (hd (dropWhile is_space s))"
        and "hd (dropWhile is_space s) \<in> set (dropWhile is_space s)"
        by (simp_all add: hd_dropWhile)
      with a show False by blast
    qed
  qed (auto dest: set_dropWhileD)
  also have "\<dots> \<longleftrightarrow> list_all is_space s"
    by (simp add: list_all_iff)
  finally show ?thesis .
qed

lemma validateUrl_blank:
  "blank_path url \<Longrightarrow> validateUrl url = Inl (js_Error ''URL must be a non-empty string'')"
  by (cases url) (simp_all add: blank_path_def trim_Nil_iff)

lemma validateSubpath_blank:
  "blank_path v \<Longrightarrow> validateSubpath v = Inl (js_Error ''Subpath must be a non-empty string'')"
  by (cases v) (simp_all add: blank_path_def trim_Nil_iff)

lemma validateId_missing:
  "missing_id v \<Longrightarrow> validateId v = Inl (js_Error ''Resource ID must be provided and non-empty'')"
  by (auto simp: missing_id_def validateId_def)

subsection \<open>A scenario of the specification\<close>

lemma fl_100: "fl 100 = 100" "fl 200 = 200"
  by code_simp+

text \<open>
  Two retries with a constant wait of 100 ms and no jitter, a transport that answers 503
  twice and then 200 with the body \<open>{id: 1}\<close>: three attempts, two waits of 100 ms,
  and the Success that wraps the body.
\<close>

lemma scenario_two_503_then_success:
  "run (\<lambda>s::nat. if s < 2
          then (Inl \<lparr>response = Some \<lparr>data = JStr ''Service Unavailable'', status = Some 503,
                                        headers = []\<rparr>,
                      message = Some ''Request failed with status code 503'',
                      code = Some ''ERR_BAD_RESPONSE''\<rparr>, Suc s)
          else (Inr \<lparr>data = JObj [(''id'', JNum 1)], status = Some 200, headers = []\<rparr>, Suc s))
       (Some \<lparr>p_retries = Some 2, p_baseDelayMs = Some 100, p_maxDelayMs = Some 100,
              p_jitter = Some False\<rparr>) (\<lambda>k. 0) 0
   = (Inr (JObj [(''status'', JBool True), (''data'', JObj [(''id'', JNum 1)])]),
      \<lparr>world = 3, calls = 3, waits = [100, 100], draws = 0\<rparr>)"
  by (simp add: run_def merge_retry_def override_def DEFAULT_RETRY_def run_loop.simps try_block_def
       invoke_def start_def isRetriable_def response_status_def backoff_wait_def
       computeBackoff_def pow2_def fl_100 normalizeSuccess_eq canonical_def Let_def)

section \<open>The execution wrapper always returns a Result\<close>

text \<open>
  Claim C1. For every exchange function, every retry override and every sequence of
  random draws, \<open>run\<close> returns, and what it returns is a Result: a value whose
  \<open>status\<close> is \<open>true\<close> or \<open>false\<close> and that has a \<open>data\<close> property. It never
  throws: the outcome is never \<open>Inl\<close>, although a value thrown by the exchange
  reaches the \<open>catch\<close> clause on every attempt that fails, and although the operator
  \<open>in\<close> of the normalizers throws on a value that is not an object (the guards
  before it keep such a value away). The loop invokes the exchange at most
  \<open>1 + max(0, retries)\<close> times. The number of retries is an integer, and every
  attempt is taken to settle.
\<close>

theorem run_always_returns_result:
  "(\<exists>v. fst (run fn o_retry rnd s) = Inr v \<and> is_result v)
   \<and> int (calls (snd (run fn o_retry rnd s))) \<le> 1 + max 0 (retries (merge_retry o_retry))"
proof -
  have "int (calls (snd (run fn o_retry rnd s)))
      \<le> int (calls (start s)) + max 0 (1 + max 0 (retries (merge_retry o_retry)) - 0)"
    unfolding run_def Let_def by (rule run_loop_calls_le)
  then have "int (calls (snd (run fn o_retry rnd s))) \<le> 1 + max 0 (retries (merge_retry o_retry))"
    by (simp add: start_def)
  moreover have "\<exists>v. fst (run fn o_retry rnd s) = Inr v \<and> is_result v"
    unfolding run_def Let_def by (rule run_loop_result)
  ultimately show ?thesis by simp
qed

text \<open>
  An exchange that throws a network error on every attempt, with three retries.
\<close>

theorem run_always_returns_result_witness:
  "(\<exists>v. fst (run (\<lambda>s::nat. (Inl \<lparr>response = None, message = Some ''Network Error'',
                                      code = Some ''ERR_NETWORK''\<rparr>, Suc s))
                 (Some \<lparr>p_retries = Some 3, p_baseDelayMs = None, p_maxDelayMs = None,
                        p_jitter = Some False\<rparr>) (\<lambda>k. 0) 0) = Inr v \<and> is_result v)
   \<and> int (calls (snd (run (\<lambda>s::nat. (Inl \<lparr>response = None, message = Some ''Network Error'',
                                         code = Some ''ERR_NETWORK''\<rparr>, Suc s))
                    (Some \<lparr>p_retries = Some 3, p_baseDelayMs = None, p_maxDelayMs = None,
                           p_jitter = Some False\<rparr>) (\<lambda>k. 0) 0))) \<le> 4"
  using run_always_returns_result
    [of "\<lambda>s::nat. (Inl \<lparr>response = None, message = Some ''Network Error'',
                          code = Some ''ERR_NETWORK''\<rparr>, Suc s)"
        "Some \<lparr>p_retries = Some 3, p_baseDelayMs = None, p_maxDelayMs = None,
               p_jitter = Some False\<rparr>" "\<lambda>k. 0" 0]
  by (simp add: merge_retry_def override_def DEFAULT_RETRY_def)

section \<open>A first attempt that succeeds\<close>

text \<open>
  Claim C2. When the first invocation of the exchange resolves with a response, \<open>run\<close>
  invokes the exchange exactly once, waits for nothing, and returns a Success: the
  payload itself when the payload already has the canonical shape with \<open>status\<close>
  \<open>true\<close>, and otherwise \<open>{status: true, data: payload}\<close>, whatever the retry
  override is.
\<close>

theorem run_first_success:
  assumes "fn s = (Inr res, s')"
  shows "fst (run fn o_retry rnd s)
           = Inr (if canonical True (data res) then data res
                  else JObj [(''status'', JBool True), (''data'', data res)])
         \<and> (\<exists>v. fst (run fn o_retry rnd s) = Inr v \<and> get_prop ''status'' v = JBool True)
         \<and> calls (snd (run fn o_retry rnd s)) = 1
         \<and> waits (snd (run fn o_retry rnd s)) = []
         \<and> world (snd (run fn o_retry rnd s)) = s'"
proof -
  have r: "run fn o_retry rnd s
      = (normalizeSuccess res, \<lparr>world = s', calls = 1, waits = [], draws = 0\<rparr>)"
    unfolding run_def Let_def using assms by (simp add: run_loop_first_success)
  obtain v where v: "normalizeSuccess res = Inr v" "canonical True v"
    using normalizeSuccess_canonical by blast
  from v(2) have "get_prop ''status'' v = JBool True" by (simp add: canonical_status)
  with r v(1) show ?thesis by (simp add: normalizeSuccess_eq)
qed

text \<open>
  A first response with the body \<open>{id: 1}\<close>, with five retries configured.
\<close>

theorem run_first_success_witness:
  "fst (run (\<lambda>s::nat. (Inr \<lparr>data = JObj [(''id'', JNum 1)], status = Some 200, headers = []\<rparr>, Suc s))
          (Some \<lparr>p_retries = Some 5, p_baseDelayMs = None, p_maxDelayMs = None, p_jitter = None\<rparr>)
          (\<lambda>k. 0) 0)
     = Inr (JObj [(''status'', JBool True), (''data'', JObj [(''id'', JNum 1)])])
   \<and> calls (snd (run (\<lambda>s::nat. (Inr \<lparr>data = JObj [(''id'', JNum 1)], status = Some 200, headers = []\<rparr>, Suc s))
          (Some \<lparr>p_retries = Some 5, p_baseDelayMs = None, p_maxDelayMs = None, p_jitter = None\<rparr>)
          (\<lambda>k. 0) 0)) = 1"
  using run_first_success
    [of "\<lambda>s::nat. (Inr \<lparr>data = JObj [(''id'', JNum 1)], status = Some 200, headers = []\<rparr>, Suc s)"
        0 "\<lparr>data = JObj [(''id'', JNum 1)], status = Some 200, headers = []\<rparr>" 1
        "Some \<lparr>p_retries = Some 5, p_baseDelayMs = None, p_maxDelayMs = None, p_jitter = None\<rparr>"
        "\<lambda>k. 0"]
  by (simp add: canonical_def)

section \<open>Failures without an HTTP status are retried to the limit\<close>



section \<open>Client errors are not retried\<close>

text \<open>
  Claim C4. When the first invocation of the exchange fails with an HTTP status in
  \<open>[400, 500)\<close>, \<open>run\<close> invokes the exchange exactly once, waits for nothing and
  returns the Failure that \<open>normalizeError\<close> builds from that failure, whatever the
  retry override is. \<open>isRetriable\<close> returns \<open>false\<close> for every failure with an HTTP
  status outside \<open>[500, 600)\<close>. An HTTP status is a number of three digits and so
  never \<open>0\<close>: a \<open>status\<close> property that is \<open>0\<close> is no HTTP status, and the source
  reads it as such (\<open>!status\<close>, the case it comments as network or timeout).
\<close>

theorem run_client_error_single_attempt:
  "(fn s = (Inl err, s') \<and> response_status err = Some n \<and> 400 \<le> n \<and> n < 500
      \<longrightarrow> fst (run fn o_retry rnd s) = normalizeError err
          \<and> (\<exists>v. fst (run fn o_retry rnd s) = Inr v \<and> get_prop ''status'' v = JBool False)
          \<and> calls (snd (run fn o_retry rnd s)) = 1
          \<and> waits (snd (run fn o_retry rnd s)) = [])
   \<and> (response_status e = Some m \<and> m \<noteq> 0 \<and> \<not> (500 \<le> m \<and> m < 600) \<longrightarrow> \<not> isRetriable e)"
proof -
  have a: "\<not> isRetriable x" if "response_status x = Some k" "k \<noteq> 0" "\<not> (500 \<le> k \<and> k < 600)" for x k
    using that by (simp add: isRetriable_def)
  have b: "run fn o_retry rnd s = (normalizeError err, \<lparr>world = s', calls = 1, waits = [], draws = 0\<rparr>)"
    if "fn s = (Inl err, s')" "response_status err = Some n" "400 \<le> n" "n < 500"
  proof -
    have "\<not> isRetriable err" using a[OF that(2)] that(3,4) by simp
    then show ?thesis
      unfolding run_def Let_def using that(1) by (simp add: run_loop_first_final)
  qed
  obtain v where v: "normalizeError err = Inr v" "canonical False v"
    using normalizeError_canonical by blast
  from v(2) have "get_prop ''status'' v = JBool False" by (simp add: canonical_status)
  with a b v(1) show ?thesis by auto
qed

text \<open>
  A first attempt answered by 404, with five retries configured.
\<close>

theorem run_client_error_single_attempt_witness:
  "calls (snd (run (\<lambda>s::nat. (Inl \<lparr>response = Some \<lparr>data = JObj [(''error'', JStr ''Not Found'')],
                                                         status = Some 404, headers = []\<rparr>,
                                      message = Some ''Request failed with status code 404'',
                                      code = Some ''ERR_BAD_REQUEST''\<rparr>, Suc s))
                  (Some \<lparr>p_retries = Some 5, p_baseDelayMs = None, p_maxDelayMs = None, p_jitter = None\<rparr>)
                  (\<lambda>k. 0) 0)) = 1
   \<and> \<not> isRetriable \<lparr>response = Some \<lparr>data = JObj [(''error'', JStr ''Not Found'')],
                                        status = Some 404, headers = []\<rparr>,
                      message = Some ''Request failed with status code 404'',
                      code = Some ''ERR_BAD_REQUEST''\<rparr>"
  using run_client_error_single_attempt
    [of "\<lambda>s::nat. (Inl \<lparr>response = Some \<lparr>data = JObj [(''error'', JStr ''Not Found'')],
                                            status = Some 404, headers = []\<rparr>,
                          message = Some ''Request failed with status code 404'',
                          code = Some ''ERR_BAD_REQUEST''\<rparr>, Suc s)"
        0
        "\<lparr>response = Some \<lparr>data = JObj [(''error'', JStr ''Not Found'')],
                            status = Some 404, headers = []\<rparr>,
          message = Some ''Request failed with status code 404'',
          code = Some ''ERR_BAD_REQUEST''\<rparr>"
        1 404
        "Some \<lparr>p_retries = Some 5, p_baseDelayMs = None, p_maxDelayMs = None, p_jitter = None\<rparr>"
        "\<lambda>k. 0"
        "\<lparr>response = Some \<lparr>data = JObj [(''error'', JStr ''Not Found'')],
                            status = Some 404, headers = []\<rparr>,
          message = Some ''Request failed with status code 404'',
          code = Some ''ERR_BAD_REQUEST''\<rparr>"
        404]
  by (simp add: response_status_def)

section \<open>An abort is retried like any failure without a status\<close>




section \<open>The backoff formula\<close>




section \<open>Normalization is idempotent\<close>

text \<open>
  Claim C7. Normalizing a success whose payload is \<open>{status: true, data: X}\<close> returns
  that payload, and normalizing an error whose response body is
  \<open>{status: false, data: E}\<close> returns that body, for every \<open>X\<close> and \<open>E\<close>. More
  generally, normalizing the result of a normalization again changes nothing.
\<close>

theorem normalize_idempotent:
  "normalizeSuccess \<lparr>data = JObj [(''status'', JBool True), (''data'', X)], status = st, headers = hs\<rparr>
     = Inr (JObj [(''status'', JBool True), (''data'', X)])
   \<and> normalizeError \<lparr>response = Some \<lparr>data = JObj [(''status'', JBool False), (''data'', E)],
                                       status = st', headers = hs'\<rparr>,
                      message = m, code = c\<rparr>
     = Inr (JObj [(''status'', JBool False), (''data'', E)])
   \<and> (\<exists>v. normalizeSuccess res = Inr v \<and> normalizeSuccess (res\<lparr>data := v\<rparr>) = Inr v)
   \<and> (\<exists>v. normalizeError err = Inr v
          \<and> normalizeError (err\<lparr>response := Some (r\<lparr>data := v\<rparr>)\<rparr>) = Inr v)"
proof -
  obtain v where v: "normalizeSuccess res = Inr v" "canonical True v"
    using normalizeSuccess_canonical by blast
  then have a: "\<exists>v. normalizeSuccess res = Inr v \<and> normalizeSuccess (res\<lparr>data := v\<rparr>) = Inr v"
    by (simp add: normalizeSuccess_eq[of "res\<lparr>data := v\<rparr>"])
  obtain w where w: "normalizeError err = Inr w" "canonical False w"
    using normalizeError_canonical by blast
  then have b: "\<exists>v. normalizeError err = Inr v
          \<and> normalizeError (err\<lparr>response := Some (r\<lparr>data := v\<rparr>)\<rparr>) = Inr v"
    by (simp add: normalizeError_eq[of "err\<lparr>response := Some (r\<lparr>data := w\<rparr>)\<rparr>"] response_data_def)
  show ?thesis
    using a b by (simp add: normalizeSuccess_eq normalizeError_eq canonical_def response_data_def)
qed

text \<open>
  A canonical success that carries an array, and a canonical failure sent with 404.
\<close>

theorem normalize_idempotent_witness:
  "normalizeSuccess \<lparr>data = JObj [(''status'', JBool True), (''data'', JArr [JNum 1, JNum 2])],
                      status = Some 200, headers = []\<rparr>
     = Inr (JObj [(''status'', JBool True), (''data'', JArr [JNum 1, JNum 2])])
   \<and> normalizeError \<lparr>response = Some \<lparr>data = JObj [(''status'', JBool False),
                                                     (''data'', JObj [(''message'', JStr ''No such user'')])],
                                       status = Some 404, headers = []\<rparr>,
                      message = Some ''Request failed with status code 404'',
                      code = Some ''ERR_BAD_REQUEST''\<rparr>
     = Inr (JObj [(''status'', JBool False), (''data'', JObj [(''message'', JStr ''No such user'')])])"
  using normalize_idempotent
    [of "JArr [JNum 1, JNum 2]" "Some 200" "[]" "JObj [(''message'', JStr ''No such user'')]"
        "Some 404" "[]" "Some ''Request failed with status code 404''" "Some ''ERR_BAD_REQUEST''"]
  by simp

section \<open>The data of a synthesized Failure\<close>

text \<open>
  Claim C8, as stated, fails: the operands of \<open>||\<close> are tested for truthiness, not
  for presence. An error body \<open>{message: "", error: "Quota exceeded"}\<close> has a
  \<open>message\<close> field, and the Failure's message is the \<open>error\<close> field.
\<close>

theorem empty_message_field_skipped:
  "\<not> canonical False
       (response_data \<lparr>response = Some \<lparr>data = JObj [(''message'', JStr []),
                                                         (''error'', JStr ''Quota exceeded'')],
                                           status = Some 429, headers = []\<rparr>,
                         message = Some ''Request failed with status code 429'',
                         code = Some ''ERR_BAD_REQUEST''\<rparr>)
   \<and> has_key ''message''
       (response_data \<lparr>response = Some \<lparr>data = JObj [(''message'', JStr []),
                                                         (''error'', JStr ''Quota exceeded'')],
                                           status = Some 429, headers = []\<rparr>,
                         message = Some ''Request failed with status code 429'',
                         code = Some ''ERR_BAD_REQUEST''\<rparr>)
   \<and> get_prop ''message''
       (response_data \<lparr>response = Some \<lparr>data = JObj [(''message'', JStr []),
                                                         (''error'', JStr ''Quota exceeded'')],
                                           status = Some 429, headers = []\<rparr>,
                         message = Some ''Request failed with status code 429'',
                         code = Some ''ERR_BAD_REQUEST''\<rparr>)
     = JStr []
   \<and> normalizeError \<lparr>response = Some \<lparr>data = JObj [(''message'', JStr []),
                                                         (''error'', JStr ''Quota exceeded'')],
                                           status = Some 429, headers = []\<rparr>,
                         message = Some ''Request failed with status code 429'',
                         code = Some ''ERR_BAD_REQUEST''\<rparr>
     = Inr (JObj [(''status'', JBool False),
                  (''data'', JObj [(''message'', JStr ''Quota exceeded''),
                                   (''error'', JStr ''Quota exceeded''),
                                   (''statusCode'', JNum 429),
                                   (''code'', JStr ''ERR_BAD_REQUEST'')])])"
  by (simp add: normalizeError_eq error_data_def error_message_def response_data_def
        response_status_def canonical_def has_key_def js_or_def opt_num_def opt_str_def Let_def)

text \<open>
  Claim C8, amended. For every error without a canonical \<open>{status: false, data}\<close>
  body, \<open>normalizeError\<close> returns \<open>{status: false, data}\<close> where the message of
  \<open>data\<close> is the first truthy value among the body's \<open>message\<close> field, the body's
  \<open>error\<close> field and the transport error's own message, and the literal
  \<open>Request failed\<close> when none is truthy (so the message is never empty); the fields
  of a body that is an object are merged into \<open>data\<close>, the chosen message replacing a
  body field named \<open>message\<close>; \<open>statusCode\<close> is the HTTP status when there is one
  other than \<open>0\<close>, and \<open>code\<close> is the transport failure code when there is one that
  is not empty, each replacing a body field of its name and otherwise leaving it.
\<close>

theorem normalizeError_builds_error_data:
  assumes "\<not> canonical False (response_data err)"
  shows "normalizeError err = Inr (JObj [(''status'', JBool False), (''data'', JObj (error_data err))])
     \<and> lookup ''message'' (error_data err) = Some (error_message err)
     \<and> truthy (error_message err)
     \<and> error_message err =
         (if truthy (get_prop ''message'' (response_data err))
            then get_prop ''message'' (response_data err)
          else if truthy (get_prop ''error'' (response_data err))
            then get_prop ''error'' (response_data err)
          else case message err of
                 None \<Rightarrow> JStr ''Request failed''
               | Some m \<Rightarrow> if m \<noteq> [] then JStr m else JStr ''Request failed'')
     \<and> (\<forall>k. k \<noteq> ''message'' \<and> k \<noteq> ''statusCode'' \<and> k \<noteq> ''code''
            \<longrightarrow> lookup k (error_data err) = lookup k (body_fields err))
     \<and> lookup ''statusCode'' (error_data err) =
         (case response_status err of
            None \<Rightarrow> lookup ''statusCode'' (body_fields err)
          | Some n \<Rightarrow> if n \<noteq> 0 then Some (JNum (of_int n))
                      else lookup ''statusCode'' (body_fields err))
     \<and> lookup ''code'' (error_data err) =
         (case code err of
            None \<Rightarrow> lookup ''code'' (body_fields err)
          | Some c \<Rightarrow> if c \<noteq> [] then Some (JStr c) else lookup ''code'' (body_fields err))"
proof -
  have a: "normalizeError err = Inr (JObj [(''status'', JBool False), (''data'', JObj (error_data err))])"
    using assms by (simp add: normalizeError_eq)
  have b: "lookup ''message'' (error_data err) = Some (error_message err)"
    by (simp add: lookup_error_data)
  have c: "\<forall>k. k \<noteq> ''message'' \<and> k \<noteq> ''statusCode'' \<and> k \<noteq> ''code''
            \<longrightarrow> lookup k (error_data err) = lookup k (body_fields err)"
    by (simp add: lookup_error_data)
  have d: "lookup ''statusCode'' (error_data err) =
         (case response_status err of
            None \<Rightarrow> lookup ''statusCode'' (body_fields err)
          | Some n \<Rightarrow> if n \<noteq> 0 then Some (JNum (of_int n))
                      else lookup ''statusCode'' (body_fields err))"
    by (simp add: lookup_error_data opt_num_def split: option.splits)
  have e: "lookup ''code'' (error_data err) =
         (case code err of
            None \<Rightarrow> lookup ''code'' (body_fields err)
          | Some c \<Rightarrow> if c \<noteq> [] then Some (JStr c) else lookup ''code'' (body_fields err))"
    by (simp add: lookup_error_data opt_str_def split: option.splits)
  from a b c d e error_message_truthy[of err] error_message_priority[of err]
  show ?thesis by blast
qed

text \<open>
  A 404 whose body is \<open>{error: "Not Found", detail: 7}\<close>.
\<close>

theorem normalizeError_builds_error_data_witness:
  "normalizeError \<lparr>response = Some \<lparr>data = JObj [(''error'', JStr ''Not Found''), (''detail'', JNum 7)],
                                      status = Some 404, headers = []\<rparr>,
                    message = Some ''Request failed with status code 404'',
                    code = Some ''ERR_BAD_REQUEST''\<rparr>
     = Inr (JObj [(''status'', JBool False),
             (''data'', JObj [(''error'', JStr ''Not Found''), (''detail'', JNum 7),
                              (''message'', JStr ''Not Found''), (''statusCode'', JNum 404),
                              (''code'', JStr ''ERR_BAD_REQUEST'')])])"
proof -
  let ?err = "\<lparr>response = Some \<lparr>data = JObj [(''error'', JStr ''Not Found''), (''detail'', JNum 7)],
                                    status = Some 404, headers = []\<rparr>,
                  message = Some ''Request failed with status code 404'',
                  code = Some ''ERR_BAD_REQUEST''\<rparr>"
  have h: "\<not> canonical False (response_data ?err)"
    by (simp add: canonical_def response_data_def)
  have d: "error_data ?err = [(''error'', JStr ''Not Found''), (''detail'', JNum 7),
                              (''message'', JStr ''Not Found''), (''statusCode'', JNum 404),
                              (''code'', JStr ''ERR_BAD_REQUEST'')]"
    by (simp add: error_data_def error_message_def response_data_def response_status_def
          js_or_def opt_num_def opt_str_def Let_def)
  show ?thesis using normalizeError_builds_error_data[OF h] d by simp
qed

section \<open>Invalid paths, identifiers and subpaths\<close>

text \<open>
  Claim C9, as stated, fails for \<open>download\<close>: it is an \<open>async\<close> function, so the
  error of its validation does not leave the call synchronously; the call returns a
  promise that rejects with it.
\<close>

theorem download_rejects_instead_of_throwing:
  "fst (download (\<lambda>h. None)
          (\<lambda>req (s::unit). (Inl \<lparr>response = None, message = Some ''Network Error'',
                                   code = Some ''ERR_NETWORK''\<rparr>, s))
          (JStr []) no_options (\<lambda>k. 0) ())
     = Rejects (js_Error ''URL must be a non-empty string'')
   \<and> fst (download (\<lambda>h. None)
          (\<lambda>req (s::unit). (Inl \<lparr>response = None, message = Some ''Network Error'',
                                   code = Some ''ERR_NETWORK''\<rparr>, s))
          (JStr []) no_options (\<lambda>k. 0) ())
     \<noteq> Throws (js_Error ''URL must be a non-empty string'')"
  by (simp add: download_def)

text \<open>
  Claim C9, amended. Called with a path that is empty, not a string or white space
  only, each of \<open>getMany\<close>, \<open>getOne\<close>, \<open>post\<close>, \<open>put\<close>, \<open>patch\<close>,
  \<open>remove\<close> and \<open>upload\<close> throws the error \<open>URL must be a non-empty string\<close>
  synchronously, and \<open>download\<close> returns a promise rejected with that error. The
  resource operations \<open>get\<close>, \<open>update\<close>, \<open>patch\<close> and \<open>remove\<close> called with an
  identifier that is \<open>null\<close>, \<open>undefined\<close> or empty, and \<open>action\<close> called with
  a subpath that is empty, not a string or white space only, throw their own error
  synchronously. In every case the exchange is never invoked and the state of the
  transport is the one before the call.
\<close>

theorem invalid_input_fails_fast:
  "(blank_path url \<longrightarrow>
      getMany api url options rnd s = (Throws (js_Error ''URL must be a non-empty string''), start s)
    \<and> getOne api url options rnd s = (Throws (js_Error ''URL must be a non-empty string''), start s)
    \<and> post api url payload options rnd s
        = (Throws (js_Error ''URL must be a non-empty string''), start s)
    \<and> put api url payload options rnd s
        = (Throws (js_Error ''URL must be a non-empty string''), start s)
    \<and> patch api url payload options rnd s
        = (Throws (js_Error ''URL must be a non-empty string''), start s)
    \<and> remove_op api url options rnd s
        = (Throws (js_Error ''URL must be a non-empty string''), start s)
    \<and> upload to_str api url d options rnd s
        = (Throws (js_Error ''URL must be a non-empty string''), start s)
    \<and> download match_filename api url options rnd s
        = (Rejects (js_Error ''URL must be a non-empty string''), start (s, None)))
   \<and> (missing_id ident \<longrightarrow>
      resource_get to_str api baseUrl ident options rnd s
        = (Throws (js_Error ''Resource ID must be provided and non-empty''), start s)
    \<and> resource_update to_str api baseUrl ident payload options rnd s
        = (Throws (js_Error ''Resource ID must be provided and non-empty''), start s)
    \<and> resource_patch to_str api baseUrl ident payload options rnd s
        = (Throws (js_Error ''Resource ID must be provided and non-empty''), start s)
    \<and> resource_remove to_str api baseUrl ident options rnd s
        = (Throws (js_Error ''Resource ID must be provided and non-empty''), start s))
   \<and> (blank_path subpath \<longrightarrow>
      resource_action to_str api baseUrl subpath payload options rnd s
        = (Throws (js_Error ''Subpath must be a non-empty string''), start s))
   \<and> calls (start s) = 0 \<and> world (start s) = s
   \<and> calls (start (s, None :: axios_response option)) = 0"
  by (simp add: getMany_def getOne_def post_def put_def patch_def remove_op_def upload_def
        download_def resource_get_def resource_update_def resource_patch_def resource_remove_def
        resource_action_def validateUrl_blank validateSubpath_blank validateId_missing start_def)

text \<open>
  \<open>getOne("")\<close>, \<open>post("  ")\<close>, \<open>getMany(5)\<close>, \<open>get(id = "")\<close> and
  \<open>action("")\<close> against a transport that would answer 200.
\<close>

theorem invalid_input_fails_fast_witness:
  "getOne (\<lambda>req (s::nat). (Inr \<lparr>data = JNull, status = Some 200, headers = []\<rparr>, Suc s))
      (JStr []) no_options (\<lambda>k. 0) 0
     = (Throws (js_Error ''URL must be a non-empty string''),
        \<lparr>world = 0, calls = 0, waits = [], draws = 0\<rparr>)
   \<and> post (\<lambda>req (s::nat). (Inr \<lparr>data = JNull, status = Some 200, headers = []\<rparr>, Suc s))
      (JStr ''  '') JNull no_options (\<lambda>k. 0) 0
     = (Throws (js_Error ''URL must be a non-empty string''),
        \<lparr>world = 0, calls = 0, waits = [], draws = 0\<rparr>)
   \<and> getMany (\<lambda>req (s::nat). (Inr \<lparr>data = JNull, status = Some 200, headers = []\<rparr>, Suc s))
      (JNum 5) no_options (\<lambda>k. 0) 0
     = (Throws (js_Error ''URL must be a non-empty string''),
        \<lparr>world = 0, calls = 0, waits = [], draws = 0\<rparr>)
   \<and> resource_get (\<lambda>v. ''?'') (\<lambda>req (s::nat). (Inr \<lparr>data = JNull, status = Some 200, headers = []\<rparr>, Suc s))
      ''/users'' (JStr []) no_options (\<lambda>k. 0) 0
     = (Throws (js_Error ''Resource ID must be provided and non-empty''),
        \<lparr>world = 0, calls = 0, waits = [], draws = 0\<rparr>)
   \<and> resource_action (\<lambda>v. ''?'') (\<lambda>req (s::nat). (Inr \<lparr>data = JNull, status = Some 200, headers = []\<rparr>, Suc s))
      ''/users'' (JStr []) JUndefined no_options (\<lambda>k. 0) 0
     = (Throws (js_Error ''Subpath must be a non-empty string''),
        \<lparr>world = 0, calls = 0, waits = [], draws = 0\<rparr>)"
proof -
  let ?api = "\<lambda>(req::request) (s::nat). (Inr \<lparr>data = JNull, status = Some 200, headers = []\<rparr> :: axios_error + axios_response, Suc s)"
  have b1: "blank_path (JStr [])" by (simp add: blank_path_def)
  have b2: "blank_path (JStr ''  '')" by (simp add: blank_path_def is_space_def)
  have b3: "blank_path (JNum 5)" by (simp add: blank_path_def)
  have m: "missing_id (JStr [])" by (simp add: missing_id_def)
  show ?thesis
    using invalid_input_fails_fast[of "JStr []" ?api no_options "\<lambda>k. 0" 0 JNull "\<lambda>v. ''?''" "UValue JNull" "\<lambda>h. None"
            "JStr []" "''/users''" "JStr []"]
      invalid_input_fails_fast[of "JStr ''  ''" ?api no_options "\<lambda>k. 0" 0 JNull "\<lambda>v. ''?''" "UValue JNull" "\<lambda>h. None"
            "JStr []" "''/users''" "JStr []"]
      invalid_input_fails_fast[of "JNum 5" ?api no_options "\<lambda>k. 0" 0 JUndefined "\<lambda>v. ''?''" "UValue JNull" "\<lambda>h. None"
            "JStr []" "''/users''" "JStr []"]
      b1 b2 b3 m
    by (simp add: start_def)
qed

section \<open>The discriminant follows the direction of the outcome\<close>

text \<open>
  Claim C10. \<open>normalizeSuccess\<close> returns a result whose \<open>status\<close> is \<open>true\<close> for
  every response, and \<open>normalizeError\<close> a result whose \<open>status\<close> is \<open>false\<close> for
  every error. In particular a successful response whose body is
  \<open>{status: false, data: E}\<close> is not passed through: the whole body becomes the
  \<open>data\<close> of a Success.
\<close>

theorem normalizers_keep_direction:
  "(\<exists>v. normalizeSuccess res = Inr v \<and> get_prop ''status'' v = JBool True)
   \<and> (\<exists>v. normalizeError err = Inr v \<and> get_prop ''status'' v = JBool False)
   \<and> normalizeSuccess \<lparr>data = JObj [(''status'', JBool False), (''data'', E)], status = st, headers = hs\<rparr>
       = Inr (JObj [(''status'', JBool True),
                    (''data'', JObj [(''status'', JBool False), (''data'', E)])])"
proof -
  obtain v where v: "normalizeSuccess res = Inr v" "canonical True v"
    using normalizeSuccess_canonical by blast
  obtain w where w: "normalizeError err = Inr w" "canonical False w"
    using normalizeError_canonical by blast
  from v w canonical_status[of True v] canonical_status[of False w]
  show ?thesis by (simp add: normalizeSuccess_eq canonical_def)
qed

text \<open>
  A 200 whose body says \<open>status: false\<close>, and a 500 whose body says \<open>status: true\<close>.
\<close>

theorem normalizers_keep_direction_witness:
  "(\<exists>v. normalizeSuccess \<lparr>data = JObj [(''status'', JBool False), (''data'', JStr ''denied'')],
                           status = Some 200, headers = []\<rparr> = Inr v
        \<and> get_prop ''status'' v = JBool True)
   \<and> (\<exists>v. normalizeError \<lparr>response = Some \<lparr>data = JObj [(''status'', JBool True), (''data'', JNum 1)],
                                             status = Some 500, headers = []\<rparr>,
                           message = Some ''Request failed with status code 500'',
                           code = Some ''ERR_BAD_RESPONSE''\<rparr> = Inr v
        \<and> get_prop ''status'' v = JBool False)"
  using normalizers_keep_direction
    [of "\<lparr>data = JObj [(''status'', JBool False), (''data'', JStr ''denied'')],
          status = Some 200, headers = []\<rparr>"
        "\<lparr>response = Some \<lparr>data = JObj [(''status'', JBool True), (''data'', JNum 1)],
                            status = Some 500, headers = []\<rparr>,
          message = Some ''Request failed with status code 500'',
          code = Some ''ERR_BAD_RESPONSE''\<rparr>"]
  by blast

end
